theory Spec2Isabelle
  imports Complex_Main "HOL-Library.Word"
begin

section \<open>Strings of the host language\<close>

text \<open>
  A TypeScript string is a sequence of 16-bit code units, and \<open>length\<close> counts code units.
  ASCII literals of the source are written \<open>js ''...''\<close>.
\<close>

type_synonym jschar = "16 word"
type_synonym jsstring = "jschar list"

definition js :: "string \<Rightarrow> jsstring" where
  "js s = map of_char s"

text \<open>
  The class \<open>\s\<close> of a regular expression and the characters removed by \<open>trim()\<close> are the same
  set: WhiteSpace and LineTerminator of the language standard.
\<close>

definition isWhiteSpace :: "jschar \<Rightarrow> bool" where
  "isWhiteSpace c \<longleftrightarrow>
     c \<in> {0x9, 0xA, 0xB, 0xC, 0xD, 0x20, 0xA0, 0x1680, 0x2028, 0x2029, 0x202F, 0x205F,
          0x3000, 0xFEFF}
     \<or> (0x2000 \<le> c \<and> c \<le> 0x200A)"

definition trim :: "jsstring \<Rightarrow> jsstring" where
  "trim s = rev (dropWhile isWhiteSpace (rev (dropWhile isWhiteSpace s)))"

text \<open>\<open>xs.join(" ")\<close>\<close>

fun join_space :: "jsstring list \<Rightarrow> jsstring" where
  "join_space [] = []"
| "join_space [x] = x"
| "join_space (x # y # ys) = x @ [0x20] @ join_space (y # ys)"

text \<open>A non-negative integer inside a template literal: its decimal digits.\<close>

fun show_nat :: "nat \<Rightarrow> jsstring" where
  "show_nat n =
     (if n < 10 then [of_nat (48 + n)] else show_nat (n div 10) @ [of_nat (48 + n mod 10)])"

declare show_nat.simps [simp del]

section \<open>The chunker and the embedding client (services/rag)\<close>

subsection \<open>Configuration\<close>

definition CHUNK_SIZE :: nat where "CHUNK_SIZE = 800"
definition CHUNK_OVERLAP :: nat where "CHUNK_OVERLAP = 100"
definition EMBEDDING_BATCH_SIZE :: nat where "EMBEDDING_BATCH_SIZE = 20"

subsection \<open>Types\<close>

record TextChunk =
  content :: jsstring
  page_start :: int
  page_end :: int
  token_count :: nat

record PageText =
  page :: int
  page_text :: jsstring

subsection \<open>estimateTokens\<close>

text \<open>
  \<open>Math.ceil(text.length / 4)\<close>. A string length is an integer below \<open>2^53\<close> and a division
  by four is exact in binary floating point, so the quotient is the rational number and the
  ceiling is taken of it.
\<close>

definition estimateTokens :: "jsstring \<Rightarrow> nat" where
  "estimateTokens t = nat \<lceil>(of_nat (length t) :: rat) / 4\<rceil>"

subsection \<open>chunkText\<close>

text \<open>
  \<open>text.split(/(?<=[.!?])\s+/)\<close>: the separator is a maximal run of white space whose
  predecessor is one of the three terminal marks. The scan goes left to right; \<open>prev\<close> tells
  whether the code unit before the current position is a terminal mark, \<open>cur\<close> holds the part
  read so far, reversed. After a separator the scan resumes behind the run, where the
  predecessor is white space.
\<close>

definition isTerminal :: "jschar \<Rightarrow> bool" where
  "isTerminal c \<longleftrightarrow> c = 0x2E \<or> c = 0x21 \<or> c = 0x3F"

function split_from :: "bool \<Rightarrow> jsstring \<Rightarrow> jsstring \<Rightarrow> jsstring list" where
  "split_from prev cur [] = [rev cur]"
| "split_from prev cur (c # cs) =
     (if prev \<and> isWhiteSpace c
      then rev cur # split_from False [] (dropWhile isWhiteSpace cs)
      else split_from (isTerminal c) (c # cur) cs)"
  by pat_completeness auto
termination
  by (relation "measure (\<lambda>(prev, cur, s). length s)")
     (auto simp: le_imp_less_Suc length_dropWhile_le)

definition split_sentences :: "jsstring \<Rightarrow> jsstring list" where
  "split_sentences t = split_from False [] t"

record sentence =
  s_text :: jsstring
  s_page :: int

text \<open>The inner loop over the parts of one page, and the outer loop over the pages.\<close>

definition page_sentences :: "PageText \<Rightarrow> sentence list" where
  "page_sentences p =
     map (\<lambda>trimmed. \<lparr>s_text = trimmed, s_page = page p\<rparr>)
       (filter (\<lambda>trimmed. length trimmed > 0) (map trim (split_sentences (page_text p))))"

definition sentences_of :: "PageText list \<Rightarrow> sentence list" where
  "sentences_of pages = concat (map page_sentences pages)"

text \<open>
  The overlap loop \<open>for (i = currentChunk.length - 1; i >= 0; i--)\<close>. The first argument is
  \<open>i + 1\<close>; the result is \<open>(overlapTokens, overlapStart)\<close> when the loop ends or breaks.
\<close>

fun overlap_loop :: "jsstring list \<Rightarrow> nat \<Rightarrow> nat \<Rightarrow> nat \<Rightarrow> nat \<times> nat" where
  "overlap_loop currentChunk 0 overlapTokens overlapStart = (overlapTokens, overlapStart)"
| "overlap_loop currentChunk (Suc i) overlapTokens overlapStart =
     (let t = estimateTokens (currentChunk ! i)
      in if overlapTokens + t > CHUNK_OVERLAP then (overlapTokens, overlapStart)
         else overlap_loop currentChunk i (overlapTokens + t) i)"

definition build_overlap :: "jsstring list \<Rightarrow> nat \<times> nat" where
  "build_overlap currentChunk =
     overlap_loop currentChunk (length currentChunk) 0 (length currentChunk)"

record chunk_state =
  chunks :: "TextChunk list"
  currentChunk :: "jsstring list"
  currentTokens :: nat
  chunkPageStart :: int
  chunkPageEnd :: int

definition make_chunk :: "chunk_state \<Rightarrow> TextChunk" where
  "make_chunk st =
     (let c = join_space (currentChunk st)
      in \<lparr>content = c, page_start = chunkPageStart st, page_end = chunkPageEnd st,
          token_count = estimateTokens c\<rparr>)"

text \<open>The body of the \<open>if\<close> inside the main loop: push the chunk, then seed the next one.\<close>

definition finalize :: "chunk_state \<Rightarrow> sentence \<Rightarrow> chunk_state" where
  "finalize st s =
     (let (overlapTokens, overlapStart) = build_overlap (currentChunk st)
      in st\<lparr>chunks := chunks st @ [make_chunk st],
            currentChunk := drop overlapStart (currentChunk st),
            currentTokens := overlapTokens,
            chunkPageStart := s_page s\<rparr>)"

definition must_finalize :: "chunk_state \<Rightarrow> sentence \<Rightarrow> bool" where
  "must_finalize st s \<longleftrightarrow>
     currentTokens st + estimateTokens (s_text s) > CHUNK_SIZE \<and> length (currentChunk st) > 0"

definition chunk_step :: "chunk_state \<Rightarrow> sentence \<Rightarrow> chunk_state" where
  "chunk_step st s =
     (let st1 = (if must_finalize st s then finalize st s else st)
      in st1\<lparr>currentChunk := currentChunk st1 @ [s_text s],
             currentTokens := currentTokens st1 + estimateTokens (s_text s),
             chunkPageEnd := s_page s\<rparr>)"

definition chunk_init :: "sentence \<Rightarrow> chunk_state" where
  "chunk_init s0 =
     \<lparr>chunks = [], currentChunk = [], currentTokens = 0,
      chunkPageStart = s_page s0, chunkPageEnd = s_page s0\<rparr>"

definition chunk_sentences :: "sentence list \<Rightarrow> TextChunk list" where
  "chunk_sentences sentences =
     (case sentences of
        [] \<Rightarrow> []
      | s0 # _ \<Rightarrow>
          (let st = foldl chunk_step (chunk_init s0) sentences
           in if length (currentChunk st) > 0 then chunks st @ [make_chunk st]
              else chunks st))"

definition chunkText :: "PageText list \<Rightarrow> TextChunk list" where
  "chunkText pages = chunk_sentences (sentences_of pages)"

subsection \<open>generateEmbeddings\<close>

text \<open>
  A thrown value is an \<open>Error\<close> with its message, or something that is not an \<open>Error\<close>.
\<close>

datatype thrown = Error jsstring | NonError

record process_env =
  GEMINI_API_KEY :: "jsstring option"

text \<open>\<open>if (!apiKey) throw\<close>: the variable is unset or the empty string.\<close>

definition getGeminiApiKey :: "'a process_env_scheme \<Rightarrow> thrown + jsstring" where
  "getGeminiApiKey env =
     (case GEMINI_API_KEY env of
        None \<Rightarrow> Inl (Error (js ''GEMINI_API_KEY environment variable is not set.''))
      | Some apiKey \<Rightarrow>
          if apiKey = [] then Inl (Error (js ''GEMINI_API_KEY environment variable is not set.''))
          else Inr apiKey)"

datatype taskType = RETRIEVAL_DOCUMENT | RETRIEVAL_QUERY

text \<open>
  One POST to \<open>batchEmbedContents\<close>: the key of the URL, the texts of \<open>requests\<close> in order, and
  the task type and dimension that every entry of \<open>requests\<close> carries.
\<close>

record embed_request =
  req_key :: jsstring
  req_texts :: "jsstring list"
  req_taskType :: taskType
  req_outputDimensionality :: nat

definition EMBEDDING_DIMS :: nat where "EMBEDDING_DIMS = 768"

text \<open>
  The answer of the service: \<open>response.ok\<close>, \<open>response.status\<close>, \<open>response.text()\<close>, and the
  \<open>values\<close> of \<open>data.embeddings\<close> of \<open>response.json()\<close>. The vectors are not inspected by the
  program; their type is a parameter.
\<close>

record 'v http_response =
  ok :: bool
  status :: nat
  body_text :: jsstring
  body_embeddings :: "'v list"

datatype 'v fetch_result = Rejected thrown | Response "'v http_response"

definition embedding_error :: "'v http_response \<Rightarrow> thrown" where
  "embedding_error response =
     Error (js ''Gemini embedding API error ('' @ show_nat (status response) @ js ''): ''
            @ body_text response)"

text \<open>
  The request of one round of the loop: \<open>batch = texts.slice(i, i + EMBEDDING_BATCH_SIZE)\<close> and
  the body built from it.
\<close>

definition batch_request :: "jsstring \<Rightarrow> taskType \<Rightarrow> jsstring list \<Rightarrow> nat \<Rightarrow> embed_request" where
  "batch_request apiKey tt texts i =
     (let batch = take EMBEDDING_BATCH_SIZE (drop i texts)
      in \<lparr>req_key = apiKey, req_texts = batch, req_taskType = tt,
          req_outputDimensionality = EMBEDDING_DIMS\<rparr>)"

text \<open>
  The loop \<open>for (i = 0; i < texts.length; i += EMBEDDING_BATCH_SIZE)\<close>. The second component of
  the result lists the requests sent, in order.
\<close>

function embed_loop ::
  "(embed_request \<Rightarrow> 'v fetch_result) \<Rightarrow> jsstring \<Rightarrow> taskType \<Rightarrow> jsstring list \<Rightarrow> nat \<Rightarrow> 'v list
     \<Rightarrow> (thrown + 'v list) \<times> embed_request list" where
  "embed_loop fetch apiKey tt texts i allEmbeddings =
     (if i < length texts then
        (let req = batch_request apiKey tt texts i
         in case fetch req of
              Rejected e \<Rightarrow> (Inl e, [req])
            | Response response \<Rightarrow>
                if \<not> ok response then (Inl (embedding_error response), [req])
                else (let (res, sent) =
                            embed_loop fetch apiKey tt texts (i + EMBEDDING_BATCH_SIZE)
                              (allEmbeddings @ body_embeddings response)
                      in (res, req # sent)))
      else (Inr allEmbeddings, []))"
  by pat_completeness auto
termination
  by (relation "measure (\<lambda>(fetch, apiKey, tt, texts, i, acc). length texts - i)")
     (auto simp: EMBEDDING_BATCH_SIZE_def)

declare embed_loop.simps [simp del]

record 'v embed_env = process_env +
  fetch :: "embed_request \<Rightarrow> 'v fetch_result"

definition generateEmbeddings ::
  "('v, 'a) embed_env_scheme \<Rightarrow> jsstring list \<Rightarrow> taskType
     \<Rightarrow> (thrown + 'v list) \<times> embed_request list" where
  "generateEmbeddings env texts tt =
     (case getGeminiApiKey env of
        Inl e \<Rightarrow> (Inl e, [])
      | Inr apiKey \<Rightarrow> embed_loop (fetch env) apiKey tt texts 0 [])"

subsection \<open>processDocument\<close>

datatype doc_status = uploading | processing | ready | failed

record document_row =
  file_name :: jsstring
  file_url :: jsstring

text \<open>The \<open>{ data, error }\<close> pair of a store call; \<open>q_error\<close> holds \<open>error.message\<close>.\<close>

record 'a query_result =
  q_data :: "'a option"
  q_error :: "jsstring option"

record 'v chunk_row =
  document_id :: jsstring
  chunk_index :: nat
  row_content :: jsstring
  row_page_start :: int
  row_page_end :: int
  row_token_count :: nat
  embedding :: "'v option"

text \<open>
  What the collaborators answer: the document table, the file storage, the PDF parser
  (\<open>num\<close> and \<open>text\<close> of each page, and \<open>total\<close>) and the chunk table (the message of
  \<open>insertError\<close>, if any).
\<close>

record 'v rag_env = "'v embed_env" +
  select_document :: "jsstring \<Rightarrow> document_row query_result"
  storage_download :: "jsstring \<Rightarrow> (8 word list) query_result"
  pdf_getText :: "8 word list \<Rightarrow> thrown + ((int \<times> jsstring) list \<times> nat)"
  insert_chunks :: "'v chunk_row list \<Rightarrow> jsstring option"

text \<open>The writes and requests a run sends out, in order.\<close>

datatype 'v rag_event =
    UpdateDocumentStatus jsstring doc_status "nat option"
  | EmbedRequest embed_request
  | InsertChunks "'v chunk_row list"

datatype process_result = Success | Failure jsstring

definition extractTextFromPdf ::
  "('v, 'a) rag_env_scheme \<Rightarrow> 8 word list \<Rightarrow> thrown + (PageText list \<times> nat)" where
  "extractTextFromPdf env buffer =
     (case pdf_getText env buffer of
        Inl e \<Rightarrow> Inl e
      | Inr (ps, totalPages) \<Rightarrow>
          Inr (map (\<lambda>(num, t). \<lparr>page = num, page_text = t\<rparr>) ps, totalPages))"

text \<open>\<open>rows\<close>: \<open>embeddings[i]\<close> is undefined beyond the end of \<open>embeddings\<close>.\<close>

definition chunk_rows :: "jsstring \<Rightarrow> TextChunk list \<Rightarrow> 'v list \<Rightarrow> 'v chunk_row list" where
  "chunk_rows documentId cs embeddings =
     map (\<lambda>(i, c). \<lparr>document_id = documentId, chunk_index = i, row_content = content c,
                    row_page_start = page_start c, row_page_end = page_end c,
                    row_token_count = token_count c,
                    embedding = (if i < length embeddings then Some (embeddings ! i) else None)\<rparr>)
       (enumerate 0 cs)"

definition BATCH_SIZE :: nat where "BATCH_SIZE = 50"

text \<open>
  The insertion loop; \<open>Some message\<close> is the \<open>insertError\<close> that ended it, and the second
  component lists the batches sent.
\<close>

function insert_loop ::
  "('v chunk_row list \<Rightarrow> jsstring option) \<Rightarrow> 'v chunk_row list \<Rightarrow> nat
     \<Rightarrow> jsstring option \<times> 'v rag_event list" where
  "insert_loop ins rows i =
     (if i < length rows then
        (let batch = take BATCH_SIZE (drop i rows)
         in case ins batch of
              Some message \<Rightarrow> (Some message, [InsertChunks batch])
            | None \<Rightarrow>
                (let (r, sent) = insert_loop ins rows (i + BATCH_SIZE)
                 in (r, InsertChunks batch # sent)))
      else (None, []))"
  by pat_completeness auto
termination
  by (relation "measure (\<lambda>(ins, rows, i). length rows - i)") (auto simp: BATCH_SIZE_def)

declare insert_loop.simps [simp del]

text \<open>The \<open>catch\<close> block of \<open>processDocument\<close>.\<close>

definition catch_block :: "jsstring \<Rightarrow> thrown \<Rightarrow> process_result \<times> 'v rag_event list" where
  "catch_block documentId err =
     (Failure (case err of Error message \<Rightarrow> message
                         | NonError \<Rightarrow> js ''Unknown processing error.''),
      [UpdateDocumentStatus documentId failed None])"

definition processDocument ::
  "('v, 'a) rag_env_scheme \<Rightarrow> jsstring \<Rightarrow> process_result \<times> 'v rag_event list" where
  "processDocument env documentId =
     (let docq = select_document env documentId in
      case (q_error docq, q_data docq) of
        (Some e, _) \<Rightarrow> (Failure (js ''Document not found.''), [])
      | (None, None) \<Rightarrow> (Failure (js ''Document not found.''), [])
      | (None, Some doc) \<Rightarrow>
      (let dl = storage_download env (file_url doc) in
       if q_error dl \<noteq> None \<or> q_data dl = None then
         (Failure (js ''Failed to download PDF: ''
                   @ (case q_error dl of Some m \<Rightarrow> m | None \<Rightarrow> js ''unknown'')),
          [UpdateDocumentStatus documentId failed None])
       else
       case extractTextFromPdf env (the (q_data dl)) of
         Inl err \<Rightarrow> catch_block documentId err
       | Inr (pages, totalPages) \<Rightarrow>
       if length pages = 0 then
         (Failure (js ''Could not extract any text from the PDF.''),
          [UpdateDocumentStatus documentId failed None])
       else
       (let ev1 = [UpdateDocumentStatus documentId processing (Some totalPages)];
            cs = chunkText pages
        in
        if length cs = 0 then
          (Failure (js ''No text chunks could be generated.''),
           ev1 @ [UpdateDocumentStatus documentId failed None])
        else
        (let (emb, reqs) = generateEmbeddings env (map content cs) RETRIEVAL_DOCUMENT;
             ev2 = ev1 @ map EmbedRequest reqs
         in
         case emb of
           Inl err \<Rightarrow> (let (r, ev) = catch_block documentId err in (r, ev2 @ ev))
         | Inr embeddings \<Rightarrow>
         (let rows = chunk_rows documentId cs embeddings;
              (insertError, ins) = insert_loop (insert_chunks env) rows 0;
              ev3 = ev2 @ ins
          in
          case insertError of
            Some message \<Rightarrow>
              (Failure (js ''Failed to store chunks: '' @ message),
               ev3 @ [UpdateDocumentStatus documentId failed None])
          | None \<Rightarrow> (Success, ev3 @ [UpdateDocumentStatus documentId ready None]))))))"

section \<open>Insight extraction and merging (services/insights)\<close>

subsection \<open>Types\<close>

text \<open>
  The type annotations of the source are erased when it runs: what the generative model
  answers is kept as parsed, so a field of an insight holds any value, \<open>undefined\<close> when the
  answer lacks it.
\<close>

datatype jsvalue =
    JUndefined
  | JNull
  | JBool bool
  | JNumber rat
  | JString jsstring
  | JArray "jsvalue list"
  | JObject "(jsstring \<times> jsvalue) list"

record Source =
  src_page :: jsvalue
  src_section :: jsvalue
  src_quote :: jsvalue

record ResearchDirection =
  category :: jsvalue
  rd_title :: jsvalue
  rd_description :: jsvalue

text \<open>An insight without its id is what is shown to the merge model.\<close>

record InsightBody =
  title :: jsvalue
  description :: jsvalue
  sources :: "Source list"
  researchDirections :: "ResearchDirection list"

record Insight = InsightBody +
  insight_id :: jsstring

record InsightPlan =
  totalChunks :: nat
  totalGroups :: nat

definition CHUNKS_PER_GROUP :: nat where "CHUNKS_PER_GROUP = 10"

text \<open>The columns selected by \<open>extractGroupInsights\<close>.\<close>

record group_chunk =
  gc_chunk_index :: nat
  gc_content :: jsstring
  gc_page_start :: int
  gc_page_end :: int

text \<open>The \<open>{ count, error }\<close> pair of the counting query.\<close>

record count_result =
  q_count :: "nat option"
  q_count_error :: "jsstring option"

text \<open>
  A call of the generative model: the extraction prompt is built from the group index, the
  number of groups and the chunks of the group, the merge prompt from the insights without
  their ids. The system instruction and the generation settings are fixed by the kind of call.
\<close>

datatype model_request =
    ExtractRequest nat nat "group_chunk list"
  | MergeRequest "InsightBody list"

datatype insight_exn = IError jsstring | SyntaxError | TypeError

text \<open>
  What the collaborators answer. \<open>generateContent\<close> gives \<open>result.response.text()\<close> or
  throws; \<open>JSON_parse\<close> is the parser of the host, \<open>None\<close> when it throws a SyntaxError.
\<close>

record insight_env = process_env +
  select_insights :: "jsstring \<Rightarrow> (Insight list) query_result"
  count_chunks :: "jsstring \<Rightarrow> count_result"
  select_chunks :: "jsstring \<Rightarrow> nat \<Rightarrow> nat \<Rightarrow> (group_chunk list) query_result"
  generateContent :: "model_request \<Rightarrow> insight_exn + jsstring"
  JSON_parse :: "jsstring \<Rightarrow> jsvalue option"

text \<open>The model calls and cache writes a call sends out, in order.\<close>

datatype insight_event =
    GenerateContent model_request
  | Upsert jsstring "Insight list"

subsection \<open>Reading a parsed answer\<close>

text \<open>\<open>v.name\<close> for one of the field names the program reads.\<close>

fun get_prop :: "jsvalue \<Rightarrow> jsstring \<Rightarrow> insight_exn + jsvalue" where
  "get_prop JUndefined name = Inl TypeError"
| "get_prop JNull name = Inl TypeError"
| "get_prop (JObject kvs) name =
     Inr (case map_of kvs name of None \<Rightarrow> JUndefined | Some v \<Rightarrow> v)"
| "get_prop v name = Inr JUndefined"

text \<open>\<open>(v ?? []).map(f)\<close>, and \<open>raw.map(f)\<close> on the parsed answer.\<close>

fun nullish_array :: "jsvalue \<Rightarrow> insight_exn + jsvalue list" where
  "nullish_array JUndefined = Inr []"
| "nullish_array JNull = Inr []"
| "nullish_array (JArray xs) = Inr xs"
| "nullish_array v = Inl TypeError"

fun as_array :: "jsvalue \<Rightarrow> insight_exn + jsvalue list" where
  "as_array (JArray xs) = Inr xs"
| "as_array v = Inl TypeError"

fun map_exn :: "('a \<Rightarrow> insight_exn + 'b) \<Rightarrow> 'a list \<Rightarrow> insight_exn + 'b list" where
  "map_exn f [] = Inr []"
| "map_exn f (x # xs) =
     (case f x of
        Inl e \<Rightarrow> Inl e
      | Inr y \<Rightarrow> (case map_exn f xs of Inl e \<Rightarrow> Inl e | Inr ys \<Rightarrow> Inr (y # ys)))"

text \<open>Evaluation goes on with the value, or stops at the exception.\<close>

definition and_then :: "insight_exn + 'a \<Rightarrow> ('a \<Rightarrow> insight_exn + 'b) \<Rightarrow> insight_exn + 'b" where
  "and_then r f = (case r of Inl e \<Rightarrow> Inl e | Inr x \<Rightarrow> f x)"

definition to_source :: "jsvalue \<Rightarrow> insight_exn + Source" where
  "to_source s =
     and_then (get_prop s (js ''page'')) (\<lambda>p.
     and_then (get_prop s (js ''section'')) (\<lambda>sec.
     and_then (get_prop s (js ''quote'')) (\<lambda>q.
     Inr \<lparr>src_page = p, src_section = sec, src_quote = q\<rparr>)))"

definition to_direction :: "jsvalue \<Rightarrow> insight_exn + ResearchDirection" where
  "to_direction rd =
     and_then (get_prop rd (js ''category'')) (\<lambda>c.
     and_then (get_prop rd (js ''title'')) (\<lambda>t.
     and_then (get_prop rd (js ''description'')) (\<lambda>d.
     Inr \<lparr>category = c, rd_title = t, rd_description = d\<rparr>)))"

text \<open>The object literal both \<open>assignIds\<close> and \<open>extractGroupInsights\<close> build from an item.\<close>

definition to_insight :: "jsstring \<Rightarrow> jsvalue \<Rightarrow> insight_exn + Insight" where
  "to_insight new_id item =
     and_then (get_prop item (js ''title'')) (\<lambda>t.
     and_then (get_prop item (js ''description'')) (\<lambda>d.
     and_then (get_prop item (js ''sources'')) (\<lambda>sv.
     and_then (nullish_array sv) (\<lambda>ss.
     and_then (map_exn to_source ss) (\<lambda>srcs.
     and_then (get_prop item (js ''researchDirections'')) (\<lambda>rv.
     and_then (nullish_array rv) (\<lambda>rs.
     and_then (map_exn to_direction rs) (\<lambda>dirs.
     Inr \<lparr>title = t, description = d, sources = srcs, researchDirections = dirs,
          insight_id = new_id\<rparr>))))))))"

definition final_id :: "jsstring \<Rightarrow> nat \<Rightarrow> jsstring" where
  "final_id documentId index = js ''insight-'' @ take 8 documentId @ js ''-'' @ show_nat index"

definition group_id :: "jsstring \<Rightarrow> nat \<Rightarrow> nat \<Rightarrow> jsstring" where
  "group_id documentId groupIndex i =
     js ''insight-'' @ take 8 documentId @ js ''-g'' @ show_nat groupIndex @ js ''-''
     @ show_nat i"

definition assignIds :: "jsvalue \<Rightarrow> jsstring \<Rightarrow> insight_exn + Insight list" where
  "assignIds raw documentId =
     (case as_array raw of
        Inl e \<Rightarrow> Inl e
      | Inr items \<Rightarrow>
          map_exn (\<lambda>(index, item). to_insight (final_id documentId index) item)
            (enumerate 0 items))"

definition getGeminiClient :: "'a process_env_scheme \<Rightarrow> insight_exn + unit" where
  "getGeminiClient env =
     (case GEMINI_API_KEY env of
        None \<Rightarrow> Inl (IError (js ''GEMINI_API_KEY environment variable is not set.''))
      | Some apiKey \<Rightarrow>
          if apiKey = [] then Inl (IError (js ''GEMINI_API_KEY environment variable is not set.''))
          else Inr ())"

subsection \<open>Cache helpers\<close>

definition getCachedInsights :: "'a insight_env_scheme \<Rightarrow> jsstring \<Rightarrow> Insight list option" where
  "getCachedInsights env documentId =
     (let r = select_insights env documentId in
      if q_error r \<noteq> None then None
      else case q_data r of
             None \<Rightarrow> None
           | Some insights \<Rightarrow> if length insights > 0 then Some insights else None)"

definition cacheInsights :: "jsstring \<Rightarrow> Insight list \<Rightarrow> insight_event list" where
  "cacheInsights documentId insights = [Upsert documentId insights]"

subsection \<open>getInsightPlan\<close>

text \<open>
  \<open>Math.ceil(count / CHUNKS_PER_GROUP)\<close>: for a row count the rounded quotient lies on the
  same side of every integer as the exact one, so the ceiling is that of the rational.
\<close>

definition getInsightPlan :: "'a insight_env_scheme \<Rightarrow> jsstring \<Rightarrow> InsightPlan option" where
  "getInsightPlan env documentId =
     (let r = count_chunks env documentId in
      if q_count_error r \<noteq> None \<or> q_count r = None \<or> q_count r = Some 0 then None
      else Some \<lparr>totalChunks = the (q_count r),
                 totalGroups =
                   nat \<lceil>(of_nat (the (q_count r)) :: rat) / of_nat CHUNKS_PER_GROUP\<rceil>\<rparr>)"

subsection \<open>extractGroupInsights\<close>

definition extractGroupInsights ::
  "'a insight_env_scheme \<Rightarrow> jsstring \<Rightarrow> nat \<Rightarrow> nat
     \<Rightarrow> (insight_exn + Insight list) \<times> insight_event list" where
  "extractGroupInsights env documentId groupIndex totalGroups' =
     (case getGeminiClient env of
        Inl e \<Rightarrow> (Inl e, [])
      | Inr genAI \<Rightarrow>
      (let offset = groupIndex * CHUNKS_PER_GROUP;
           r = select_chunks env documentId offset (offset + CHUNKS_PER_GROUP - 1)
       in
       if q_error r \<noteq> None \<or> q_data r = None \<or> length (the (q_data r)) = 0 then (Inr [], [])
       else
       (let req = ExtractRequest groupIndex totalGroups' (the (q_data r)) in
        case generateContent env req of
          Inl e \<Rightarrow> (Inl e, [GenerateContent req])
        | Inr answer \<Rightarrow>
        (let responseText = trim answer in
         if responseText = [] then (Inr [], [GenerateContent req])
         else
         case JSON_parse env responseText of
           None \<Rightarrow> (Inl SyntaxError, [GenerateContent req])
         | Some raw \<Rightarrow>
         (case as_array raw of
            Inl e \<Rightarrow> (Inl e, [GenerateContent req])
          | Inr items \<Rightarrow>
              (map_exn (\<lambda>(i, item). to_insight (group_id documentId groupIndex i) item)
                 (enumerate 0 items),
               [GenerateContent req]))))))"

subsection \<open>mergeAndCacheInsights\<close>

text \<open>\<open>allInsights.map((item, index) => ({ ...item, id: ... }))\<close>\<close>

definition reassign_ids :: "jsstring \<Rightarrow> Insight list \<Rightarrow> Insight list" where
  "reassign_ids documentId allInsights =
     map (\<lambda>(index, item). item\<lparr>insight_id := final_id documentId index\<rparr>)
       (enumerate 0 allInsights)"

definition mergeAndCacheInsights ::
  "'a insight_env_scheme \<Rightarrow> jsstring \<Rightarrow> Insight list
     \<Rightarrow> (insight_exn + Insight list) \<times> insight_event list" where
  "mergeAndCacheInsights env documentId allInsights =
     (if length allInsights \<le> 6 then
        (let final = reassign_ids documentId allInsights
         in (Inr final, cacheInsights documentId final))
      else
      case getGeminiClient env of
        Inl e \<Rightarrow> (Inl e, [])
      | Inr genAI \<Rightarrow>
      (let stripped = map InsightBody.truncate allInsights;
           req = MergeRequest stripped
       in
       case generateContent env req of
         Inl e \<Rightarrow> (Inl e, [GenerateContent req])
       | Inr answer \<Rightarrow>
       (let responseText = trim answer in
        if responseText = [] then
          (let final = reassign_ids documentId allInsights
           in (Inr final, GenerateContent req # cacheInsights documentId final))
        else
        case JSON_parse env responseText of
          None \<Rightarrow> (Inl SyntaxError, [GenerateContent req])
        | Some merged \<Rightarrow>
        (case assignIds merged documentId of
           Inl e \<Rightarrow> (Inl e, [GenerateContent req])
         | Inr final \<Rightarrow> (Inr final, GenerateContent req # cacheInsights documentId final)))))"

subsection \<open>generateInsights\<close>

text \<open>
  \<open>Promise.all\<close> over the groups: every call is started, the calls are listed by group index,
  and the whole is rejected when one of them is.
\<close>

fun all_settled :: "(insight_exn + 'a) list \<Rightarrow> insight_exn + 'a list" where
  "all_settled [] = Inr []"
| "all_settled (r # rs) =
     (case r of
        Inl e \<Rightarrow> Inl e
      | Inr x \<Rightarrow> (case all_settled rs of Inl e \<Rightarrow> Inl e | Inr xs \<Rightarrow> Inr (x # xs)))"

definition generateInsights ::
  "'a insight_env_scheme \<Rightarrow> jsstring \<Rightarrow> (insight_exn + Insight list) \<times> insight_event list" where
  "generateInsights env documentId =
     (case getCachedInsights env documentId of
        Some cached \<Rightarrow> (Inr cached, [])
      | None \<Rightarrow>
      (case getInsightPlan env documentId of
         None \<Rightarrow> (Inr [], [])
       | Some plan \<Rightarrow>
       (let calls = map (\<lambda>i. extractGroupInsights env documentId i (totalGroups plan))
                      [0 ..< totalGroups plan];
            ev = concat (map snd calls)
        in
        case all_settled (map fst calls) of
          Inl e \<Rightarrow> (Inl e, ev)
        | Inr groupResults \<Rightarrow>
        (let allInsights = concat groupResults in
         if length allInsights = 0 then (Inr [], ev)
         else (let (r, ev') = mergeAndCacheInsights env documentId allInsights
               in (r, ev @ ev'))))))"

section \<open>Conditions on the environment and sample data\<close>

text \<open>The generative-model key is configured.\<close>

definition key_set :: "'a process_env_scheme \<Rightarrow> bool" where
  "key_set env \<longleftrightarrow> (\<exists>k. GEMINI_API_KEY env = Some k \<and> k \<noteq> [])"

text \<open>
  The page invariant of the chunker loop: the start pages recorded so far, followed by the
  start page of the chunk under construction, do not decrease, and no chunk starts after it
  ends.
\<close>

definition pages_ok :: "chunk_state \<Rightarrow> bool" where
  "pages_ok st \<longleftrightarrow>
     sorted (map page_start (chunks st) @ [chunkPageStart st])
     \<and> (\<forall>c \<in> set (chunks st). page_start c \<le> page_end c)
     \<and> chunkPageStart st \<le> chunkPageEnd st"

subsection \<open>A document of eleven chunks and a scripted model\<close>

definition ex_doc :: jsstring where
  "ex_doc = js ''0f8fad5b-d9cb-469f-a165-70867728950e''"

definition ex_insight :: "nat \<Rightarrow> Insight" where
  "ex_insight i =
     \<lparr>title = JString (js ''Finding''), description = JString (js ''What was found.''),
      sources = [\<lparr>src_page = JNumber 1, src_section = JString (js ''Intro''),
                  src_quote = JString (js ''as shown'')\<rparr>],
      researchDirections = [],
      insight_id = group_id ex_doc 0 i\<rparr>"

text \<open>
  The host parser on the two answers the scripted model gives: \<open>[]\<close> is the empty array, and
  \<open>not json\<close> is no JSON text.
\<close>

definition ex_parse :: "jsstring \<Rightarrow> jsvalue option" where
  "ex_parse t = (if t = js ''[]'' then Some (JArray []) else None)"

definition ex_rows :: "group_chunk list" where
  "ex_rows =
     map (\<lambda>i. \<lparr>gc_chunk_index = i, gc_content = js ''Some text.'', gc_page_start = 1,
               gc_page_end = 1\<rparr>) [0 ..< 11]"

text \<open>
  The store holds \<open>ex_rows\<close> and no cached insights; the model answers \<open>answer\<close> to the first
  group and to a merge, and \<open>[]\<close> to every other group.
\<close>

definition ex_env :: "jsstring \<Rightarrow> insight_env" where
  "ex_env answer =
     \<lparr>GEMINI_API_KEY = Some (js ''key''),
      select_insights = (\<lambda>d. \<lparr>q_data = None, q_error = Some (js ''no rows'')\<rparr>),
      count_chunks = (\<lambda>d. \<lparr>q_count = Some (length ex_rows), q_count_error = None\<rparr>),
      select_chunks =
        (\<lambda>d from to. \<lparr>q_data = Some (take (to + 1 - from) (drop from ex_rows)),
                      q_error = None\<rparr>),
      generateContent =
        (\<lambda>req. case req of
                 ExtractRequest g n rows \<Rightarrow> Inr (if g = 0 then answer else js ''[]'')
               | MergeRequest xs \<Rightarrow> Inr answer),
      JSON_parse = ex_parse\<rparr>"

definition ex_env_count :: "nat option \<Rightarrow> jsstring option \<Rightarrow> insight_env" where
  "ex_env_count c e =
     (ex_env (js ''[]''))\<lparr>count_chunks := (\<lambda>d. \<lparr>q_count = c, q_count_error = e\<rparr>)\<rparr>"

definition ex_env_no_key :: insight_env where
  "ex_env_no_key = (ex_env (js ''[]''))\<lparr>GEMINI_API_KEY := None\<rparr>"

definition ex_candidates :: "Insight list" where
  "ex_candidates = map ex_insight [0 ..< 7]"

subsection \<open>An embedding service and a document without text\<close>

text \<open>The service answers every text with one value, here the length of the text.\<close>

definition ex_response :: "bool \<Rightarrow> embed_request \<Rightarrow> nat http_response" where
  "ex_response good req =
     \<lparr>ok = good, status = (if good then 200 else 429),
      body_text = (if good then [] else js ''quota''),
      body_embeddings = map length (req_texts req)\<rparr>"

definition ex_embed_env :: "bool \<Rightarrow> nat embed_env" where
  "ex_embed_env good =
     \<lparr>GEMINI_API_KEY = Some (js ''key''), fetch = (\<lambda>req. Response (ex_response good req))\<rparr>"

definition ex_texts :: "jsstring list" where
  "ex_texts = replicate 20 (js ''ab'') @ replicate 3 (js ''cde'')"

definition ex_rag_env :: "nat rag_env" where
  "ex_rag_env =
     \<lparr>GEMINI_API_KEY = Some (js ''key''),
      fetch = (\<lambda>req. Response (ex_response True req)),
      select_document =
        (\<lambda>d. \<lparr>q_data = Some \<lparr>file_name = js ''scan.pdf'', file_url = js ''u1/scan.pdf''\<rparr>,
               q_error = None\<rparr>),
      storage_download = (\<lambda>path. \<lparr>q_data = Some [0x25, 0x50, 0x44, 0x46], q_error = None\<rparr>),
      pdf_getText = (\<lambda>buffer. Inr ([], 0)),
      insert_chunks = (\<lambda>rows. None)\<rparr>"

subsection \<open>Pages and a chunker state\<close>

definition ex_pages :: "PageText list" where
  "ex_pages =
     [\<lparr>page = 1, page_text = js ''Hi there.  How are you?''\<rparr>,
      \<lparr>page = 2, page_text = js '' Fine! ok''\<rparr>]"

text \<open>A page that is one sentence of 800 estimated tokens, and a short second page.\<close>

definition ex_long_pages :: "PageText list" where
  "ex_long_pages =
     [\<lparr>page = 1, page_text = replicate 3200 0x61\<rparr>,
      \<lparr>page = 2, page_text = js ''Next one.''\<rparr>]"

text \<open>
  The state after the sentences of 3188, 4 and 6 code units (797, 1 and 2 estimated tokens),
  and the sentence that comes next.
\<close>

definition ex_state :: chunk_state where
  "ex_state =
     \<lparr>chunks = [], currentChunk = [replicate 3188 0x61, js ''Two.'', js ''Three.''],
      currentTokens = 800, chunkPageStart = 1, chunkPageEnd = 2\<rparr>"

definition ex_sentence :: sentence where
  "ex_sentence = \<lparr>s_text = js ''Four.'', s_page = 2\<rparr>"

section \<open>Properties of the chunker\<close>

subsection \<open>Token estimates\<close>

lemma length_js: "length (js s) = length s"
  by (simp add: js_def)

lemma estimateTokens_div: "estimateTokens t = (length t + 3) div 4"
proof -
  have "\<lceil>(of_nat (length t) :: rat) / 4\<rceil> = \<lceil>(of_int (int (length t)) :: rat) / of_int 4\<rceil>"
    by simp
  also have "\<dots> = - ((- int (length t)) div 4)"
    unfolding ceiling_divide_eq_div by simp
  finally show ?thesis unfolding estimateTokens_def by linarith
qed

lemma ceiling_quarter: "\<lceil>real n / 4\<rceil> = int ((n + 3) div 4)"
proof -
  have "\<lceil>real n / 4\<rceil> = \<lceil>(of_int (int n) :: real) / of_int 4\<rceil>"
    by simp
  also have "\<dots> = - ((- int n) div 4)"
    unfolding ceiling_divide_eq_div by simp
  finally show ?thesis by linarith
qed

text \<open>
  Claim C6. For every string the token estimate is the ceiling of a quarter of its length,
  and a string that is not longer has an estimate that is not larger.
\<close>

theorem estimateTokens_ceiling_monotone:
  "int (estimateTokens s) = \<lceil>real (length s) / 4\<rceil>
   \<and> (length s1 \<le> length s2 \<longrightarrow> estimateTokens s1 \<le> estimateTokens s2)"
  by (simp add: estimateTokens_div ceiling_quarter div_le_mono)

theorem estimateTokens_ceiling_monotone_witness:
  "int (estimateTokens (js ''abcde'')) = \<lceil>real (length (js ''abcde'')) / 4\<rceil>
   \<and> length (js ''abc'') \<le> length (js ''abcde'')
   \<and> estimateTokens (js ''abc'') \<le> estimateTokens (js ''abcde'')
   \<and> estimateTokens (js ''abc'') = 1 \<and> estimateTokens (js ''abcde'') = 2"
  using estimateTokens_ceiling_monotone [of "js ''abcde''" "js ''abc''" "js ''abcde''"]
  by (simp add: js_def estimateTokens_div)

subsection \<open>The overlap walk\<close>

lemma overlap_loop_sound:
  assumes "k \<le> length cc" "tok = sum_list (map estimateTokens (drop k cc))"
    and "overlap_loop cc k tok k = (tok', start')"
  shows "start' \<le> k \<and> tok' = sum_list (map estimateTokens (drop start' cc))
         \<and> (tok \<le> CHUNK_OVERLAP \<longrightarrow> tok' \<le> CHUNK_OVERLAP)
         \<and> (start' = 0 \<or> sum_list (map estimateTokens (drop (start' - 1) cc)) > CHUNK_OVERLAP)"
  using assms
proof (induction k arbitrary: tok)
  case 0
  then show ?case by simp
next
  case (Suc i)
  have d: "drop i cc = cc ! i # drop (Suc i) cc"
    using Suc.prems(1) by (simp add: Cons_nth_drop_Suc)
  show ?case
  proof (cases "tok + estimateTokens (cc ! i) > CHUNK_OVERLAP")
    case True
    with Suc.prems(3) have r: "tok' = tok" "start' = Suc i" by (simp_all add: Let_def)
    have "sum_list (map estimateTokens (drop i cc)) = estimateTokens (cc ! i) + tok"
      using Suc.prems(2) d by simp
    with True r Suc.prems(2) show ?thesis by simp
  next
    case False
    with Suc.prems(3)
    have run: "overlap_loop cc i (tok + estimateTokens (cc ! i)) i = (tok', start')"
      by (simp add: Let_def)
    have "tok + estimateTokens (cc ! i) = sum_list (map estimateTokens (drop i cc))"
      using Suc.prems(2) d by simp
    from Suc.IH [OF _ this run] Suc.prems(1) False show ?thesis by simp
  qed
qed

lemma build_overlap_sound:
  assumes "build_overlap cc = (tok, start)"
  shows "start \<le> length cc" "tok = sum_list (map estimateTokens (drop start cc))"
    "tok \<le> CHUNK_OVERLAP"
    "start = 0 \<or> sum_list (map estimateTokens (drop (start - 1) cc)) > CHUNK_OVERLAP"
  using overlap_loop_sound [of "length cc" cc 0 tok start] assms
  by (simp_all add: build_overlap_def)

lemma sum_drop_mono:
  fixes f :: "'a \<Rightarrow> nat"
  assumes "j \<le> k"
  shows "sum_list (map f (drop k xs)) \<le> sum_list (map f (drop j xs))"
proof -
  from assms have "drop j xs = take (k - j) (drop j xs) @ drop k xs"
    by (metis append_take_drop_id drop_drop le_add_diff_inverse2)
  then have "sum_list (map f (drop j xs)) =
      sum_list (map f (take (k - j) (drop j xs))) + sum_list (map f (drop k xs))"
    by (metis map_append sum_list_append)
  then show ?thesis by simp
qed

lemma build_overlap_maximal:
  assumes "build_overlap cc = (tok, start)"
    and "sum_list (map estimateTokens (drop k cc)) \<le> CHUNK_OVERLAP"
  shows "start \<le> k"
proof (rule ccontr)
  assume "\<not> start \<le> k"
  then have "k \<le> start - 1" "start \<noteq> 0" by simp_all
  from sum_drop_mono [OF this(1), of estimateTokens cc]
    build_overlap_sound(4) [OF assms(1)] this(2) assms(2)
  show False by linarith
qed

text \<open>
  Claim C8. When a sentence makes the chunker finalize the current chunk, the chunk is
  appended to the output and the next chunk is seeded with a trailing slice of the finalized
  chunk's sentences. The estimates of the slice sum to at most 100, every trailing slice
  within that budget starts no earlier (the slice is the longest one), and the running token
  count restarts at the sum of the slice's estimates. The new sentence is then pushed onto
  the seed and its estimate added to the count.
\<close>

theorem chunk_step_overlap_seed:
  assumes "must_finalize st s"
  shows "\<exists>start \<le> length (currentChunk st).
           currentChunk (finalize st s) = drop start (currentChunk st)
         \<and> currentTokens (finalize st s)
             = sum_list (map estimateTokens (drop start (currentChunk st)))
         \<and> sum_list (map estimateTokens (drop start (currentChunk st))) \<le> 100
         \<and> (\<forall>k. sum_list (map estimateTokens (drop k (currentChunk st))) \<le> 100
                \<longrightarrow> start \<le> k)
         \<and> chunks (finalize st s) = chunks st @ [make_chunk st]
         \<and> chunks (chunk_step st s) = chunks (finalize st s)
         \<and> currentChunk (chunk_step st s) = currentChunk (finalize st s) @ [s_text s]
         \<and> currentTokens (chunk_step st s)
             = currentTokens (finalize st s) + estimateTokens (s_text s)"
proof -
  obtain tok start where b: "build_overlap (currentChunk st) = (tok, start)"
    by (cases "build_overlap (currentChunk st)")
  note s = build_overlap_sound [OF b]
  have m: "\<forall>k. sum_list (map estimateTokens (drop k (currentChunk st))) \<le> 100
               \<longrightarrow> start \<le> k"
    using build_overlap_maximal [OF b] by (simp add: CHUNK_OVERLAP_def)
  have "currentChunk (finalize st s) = drop start (currentChunk st)"
    "currentTokens (finalize st s) = tok"
    "chunks (finalize st s) = chunks st @ [make_chunk st]"
    using b by (simp_all add: finalize_def)
  moreover have "chunks (chunk_step st s) = chunks (finalize st s)"
    "currentChunk (chunk_step st s) = currentChunk (finalize st s) @ [s_text s]"
    "currentTokens (chunk_step st s)
       = currentTokens (finalize st s) + estimateTokens (s_text s)"
    using assms by (simp_all add: chunk_step_def Let_def)
  ultimately show ?thesis using s(1,2,3) m
    by (intro conjI exI [of _ start]) (simp_all add: CHUNK_OVERLAP_def)
qed

text \<open>
  The sample state is the one the loop reaches on three sentences of 797, 1 and 2 estimated
  tokens; the fourth sentence finalizes the chunk and the next chunk is seeded with the last
  two sentences.
\<close>

lemma ex_state_reached:
  "foldl chunk_step (chunk_init \<lparr>s_text = replicate 3188 0x61, s_page = 1\<rparr>)
     [\<lparr>s_text = replicate 3188 0x61, s_page = 1\<rparr>, \<lparr>s_text = js ''Two.'', s_page = 1\<rparr>,
      \<lparr>s_text = js ''Three.'', s_page = 2\<rparr>] = ex_state"
  by (simp add: chunk_step_def chunk_init_def must_finalize_def estimateTokens_div js_def
      ex_state_def CHUNK_SIZE_def)

theorem chunk_step_overlap_seed_witness:
  "must_finalize ex_state ex_sentence
   \<and> chunks (chunk_step ex_state ex_sentence) = [make_chunk ex_state]
   \<and> currentChunk (finalize ex_state ex_sentence) = [js ''Two.'', js ''Three.'']
   \<and> currentTokens (finalize ex_state ex_sentence) = 3
   \<and> currentChunk (chunk_step ex_state ex_sentence) = [js ''Two.'', js ''Three.'', js ''Four.'']
   \<and> currentTokens (chunk_step ex_state ex_sentence) = 5"
proof -
  have h: "must_finalize ex_state ex_sentence"
    by (simp add: must_finalize_def ex_state_def ex_sentence_def estimateTokens_div js_def
        CHUNK_SIZE_def)
  have cc: "currentChunk ex_state = [replicate 3188 0x61, js ''Two.'', js ''Three.'']"
    by (simp add: ex_state_def)
  from chunk_step_overlap_seed [OF h] obtain start where
    s: "currentChunk (finalize ex_state ex_sentence) = drop start (currentChunk ex_state)"
    and t: "currentTokens (finalize ex_state ex_sentence)
              = sum_list (map estimateTokens (drop start (currentChunk ex_state)))"
    and b: "sum_list (map estimateTokens (drop start (currentChunk ex_state))) \<le> 100"
    and m: "\<forall>k. sum_list (map estimateTokens (drop k (currentChunk ex_state))) \<le> 100
               \<longrightarrow> start \<le> k"
    and c: "chunks (finalize ex_state ex_sentence) = chunks ex_state @ [make_chunk ex_state]"
      "chunks (chunk_step ex_state ex_sentence) = chunks (finalize ex_state ex_sentence)"
    and p: "currentChunk (chunk_step ex_state ex_sentence)
              = currentChunk (finalize ex_state ex_sentence) @ [s_text ex_sentence]"
      "currentTokens (chunk_step ex_state ex_sentence)
         = currentTokens (finalize ex_state ex_sentence) + estimateTokens (s_text ex_sentence)"
    by blast
  have "sum_list (map estimateTokens (drop 1 (currentChunk ex_state))) \<le> 100"
    by (simp add: cc estimateTokens_div js_def)
  with m have "start \<le> 1" by blast
  moreover have "start \<noteq> 0"
  proof
    assume "start = 0"
    with b show False by (simp add: cc estimateTokens_div js_def)
  qed
  ultimately have "start = 1" by simp
  with c s t p h show ?thesis
    by (simp add: cc estimateTokens_div length_js ex_sentence_def) (simp add: ex_state_def)
qed

subsection \<open>Page ranges\<close>

lemma chunk_step_pages_ok:
  assumes "pages_ok st" "chunkPageEnd st \<le> s_page s"
  shows "pages_ok (chunk_step st s) \<and> chunkPageEnd (chunk_step st s) = s_page s"
  using assms
  by (cases "build_overlap (currentChunk st)")
     (auto simp: pages_ok_def chunk_step_def finalize_def make_chunk_def Let_def sorted_append)

lemma foldl_pages_ok:
  assumes "sorted (map s_page ss)" "pages_ok st" "\<forall>s \<in> set ss. chunkPageEnd st \<le> s_page s"
  shows "pages_ok (foldl chunk_step st ss)"
  using assms
proof (induction ss arbitrary: st)
  case Nil
  then show ?case by simp
next
  case (Cons s ss)
  from chunk_step_pages_ok [of st s] Cons.prems
  have "pages_ok (chunk_step st s)" "chunkPageEnd (chunk_step st s) = s_page s" by simp_all
  with Cons.prems Cons.IH [of "chunk_step st s"] show ?case by simp
qed

lemma chunk_sentences_pages:
  assumes "sorted (map s_page ss)"
  shows "sorted (map page_start (chunk_sentences ss))
       \<and> (\<forall>c \<in> set (chunk_sentences ss). page_start c \<le> page_end c)"
proof (cases ss)
  case Nil
  then show ?thesis by (simp add: chunk_sentences_def)
next
  case (Cons s0 rest)
  have "pages_ok (chunk_init s0)" by (simp add: pages_ok_def chunk_init_def)
  moreover have "\<forall>s \<in> set ss. chunkPageEnd (chunk_init s0) \<le> s_page s"
    using assms Cons by (auto simp: chunk_init_def)
  ultimately have "pages_ok (foldl chunk_step (chunk_init s0) ss)"
    using foldl_pages_ok assms by blast
  then show ?thesis using Cons
    by (auto simp: chunk_sentences_def pages_ok_def Let_def make_chunk_def sorted_append)
qed

lemma sorted_map_const: "\<forall>x \<in> set xs. f x = (c::int) \<Longrightarrow> sorted (map f xs)"
  by (induction xs) auto

lemma s_page_page_sentences: "s \<in> set (page_sentences p) \<Longrightarrow> s_page s = page p"
  by (auto simp: page_sentences_def)

lemma sorted_sentences_of:
  "sorted (map page pages) \<Longrightarrow> sorted (map s_page (sentences_of pages))"
proof (induction pages)
  case Nil
  then show ?case by (simp add: sentences_of_def)
next
  case (Cons p ps)
  have "sorted (map s_page (page_sentences p))"
    by (rule sorted_map_const [of _ _ "page p"]) (simp add: s_page_page_sentences)
  moreover have "\<forall>x \<in> set (page_sentences p). \<forall>y \<in> set (sentences_of ps). s_page x \<le> s_page y"
    using Cons.prems by (auto simp: sentences_of_def dest!: s_page_page_sentences)
  ultimately show ?case using Cons
    by (auto simp: sentences_of_def sorted_append)
qed

text \<open>
  Claim C7. When the page numbers of the input do not decrease, the start pages of the
  chunks do not decrease along the output, and no chunk starts after it ends.
\<close>

theorem chunkText_pages_monotone:
  assumes "sorted (map page pages)"
  shows "(\<forall>i j. i < j \<and> j < length (chunkText pages)
            \<longrightarrow> page_start (chunkText pages ! i) \<le> page_start (chunkText pages ! j))
       \<and> (\<forall>c \<in> set (chunkText pages). page_start c \<le> page_end c)"
proof -
  from chunk_sentences_pages [OF sorted_sentences_of [OF assms]]
  have s: "sorted (map page_start (chunkText pages))"
    and e: "\<forall>c \<in> set (chunkText pages). page_start c \<le> page_end c"
    by (simp_all add: chunkText_def)
  from s have "\<forall>i j. i < j \<and> j < length (chunkText pages)
            \<longrightarrow> page_start (chunkText pages ! i) \<le> page_start (chunkText pages ! j)"
    by (auto simp: sorted_iff_nth_mono_less)
  with e show ?thesis by blast
qed

lemma ex_pages_chunks:
  "chunkText ex_pages =
     [\<lparr>content = js ''Hi there. How are you? Fine! ok'', page_start = 1, page_end = 2,
       token_count = 8\<rparr>]"
  by (simp add: chunkText_def sentences_of_def page_sentences_def split_sentences_def
      ex_pages_def js_def isWhiteSpace_def isTerminal_def trim_def chunk_sentences_def
      chunk_init_def chunk_step_def must_finalize_def estimateTokens_div CHUNK_SIZE_def
      make_chunk_def Let_def)

text \<open>
  A page without white space is one sentence; the sample pages give two chunks, one per
  page.
\<close>

lemma split_from_no_space:
  "\<forall>c \<in> set s. \<not> isWhiteSpace c \<Longrightarrow> split_from prev cur s = [rev cur @ s]"
  by (induction s arbitrary: prev cur) simp_all

lemma dropWhile_none: "\<forall>c \<in> set s. \<not> P c \<Longrightarrow> dropWhile P s = s"
  by (cases s) simp_all

lemma trim_no_space: "\<forall>c \<in> set s. \<not> isWhiteSpace c \<Longrightarrow> trim s = s"
  by (simp add: trim_def dropWhile_none)

lemma page_sentences_no_space:
  assumes "\<forall>c \<in> set (page_text p). \<not> isWhiteSpace c" "page_text p \<noteq> []"
  shows "page_sentences p = [\<lparr>s_text = page_text p, s_page = page p\<rparr>]"
  using assms
  by (simp add: page_sentences_def split_sentences_def split_from_no_space trim_no_space)

lemma ex_long_chunks:
  "chunkText ex_long_pages =
     [\<lparr>content = replicate 3200 0x61, page_start = 1, page_end = 1, token_count = 800\<rparr>,
      \<lparr>content = js ''Next one.'', page_start = 2, page_end = 2, token_count = 3\<rparr>]"
proof -
  have a: "page_sentences \<lparr>page = 1, page_text = replicate 3200 0x61\<rparr>
             = [\<lparr>s_text = replicate 3200 0x61, s_page = 1\<rparr>]"
    by (subst page_sentences_no_space) (simp_all add: isWhiteSpace_def)
  have b: "page_sentences \<lparr>page = 2, page_text = js ''Next one.''\<rparr>
             = [\<lparr>s_text = js ''Next one.'', s_page = 2\<rparr>]"
    by (simp add: page_sentences_def split_sentences_def js_def isWhiteSpace_def
        isTerminal_def trim_def)
  have o: "build_overlap [replicate 3200 (0x61 :: jschar)] = (0, 1)"
    by (simp add: build_overlap_def estimateTokens_div CHUNK_OVERLAP_def)
  show ?thesis
    by (simp add: chunkText_def sentences_of_def ex_long_pages_def a b chunk_sentences_def
        chunk_init_def chunk_step_def must_finalize_def finalize_def o make_chunk_def
        estimateTokens_div CHUNK_SIZE_def Let_def length_js)
qed

theorem chunkText_pages_monotone_witness:
  "sorted (map page ex_long_pages)
   \<and> length (chunkText ex_long_pages) = 2
   \<and> page_start (chunkText ex_long_pages ! 0) \<le> page_start (chunkText ex_long_pages ! 1)
   \<and> page_start (chunkText ex_long_pages ! 0) \<le> page_end (chunkText ex_long_pages ! 0)
   \<and> page_start (chunkText ex_long_pages ! 1) \<le> page_end (chunkText ex_long_pages ! 1)"
proof -
  have h: "sorted (map page ex_long_pages)" by (simp add: ex_long_pages_def)
  have n: "length (chunkText ex_long_pages) = 2" by (simp add: ex_long_chunks)
  then have m: "chunkText ex_long_pages ! 0 \<in> set (chunkText ex_long_pages)"
    "chunkText ex_long_pages ! 1 \<in> set (chunkText ex_long_pages)"
    by simp_all
  have "(0::nat) < 1 \<and> 1 < length (chunkText ex_long_pages)" using n by simp
  with chunkText_pages_monotone [OF h] h n m show ?thesis by blast
qed

section \<open>Properties of the embedding client and of the processing flow\<close>

subsection \<open>The batch loop\<close>

lemma embed_loop_done:
  "\<not> i < length texts \<Longrightarrow> embed_loop f k tt texts i acc = (Inr acc, [])"
  by (simp add: embed_loop.simps)

lemma embed_loop_rejected:
  "i < length texts \<Longrightarrow> f (batch_request k tt texts i) = Rejected e \<Longrightarrow>
   embed_loop f k tt texts i acc = (Inl e, [batch_request k tt texts i])"
  by (subst embed_loop.simps) (simp add: Let_def)

lemma embed_loop_not_ok:
  "i < length texts \<Longrightarrow> f (batch_request k tt texts i) = Response r \<Longrightarrow> \<not> ok r \<Longrightarrow>
   embed_loop f k tt texts i acc = (Inl (embedding_error r), [batch_request k tt texts i])"
  by (subst embed_loop.simps) (simp add: Let_def)

lemma embed_loop_ok:
  "i < length texts \<Longrightarrow> f (batch_request k tt texts i) = Response r \<Longrightarrow> ok r \<Longrightarrow>
   embed_loop f k tt texts i acc =
     (fst (embed_loop f k tt texts (i + EMBEDDING_BATCH_SIZE) (acc @ body_embeddings r)),
      batch_request k tt texts i
        # snd (embed_loop f k tt texts (i + EMBEDDING_BATCH_SIZE) (acc @ body_embeddings r)))"
  by (subst embed_loop.simps) (simp add: Let_def split: prod.splits)

lemma embed_loop_cases:
  obtains (fin) "\<not> i < length texts" "embed_loop f k tt texts i acc = (Inr acc, [])"
  | (rej) e where "i < length texts" "f (batch_request k tt texts i) = Rejected e"
      "embed_loop f k tt texts i acc = (Inl e, [batch_request k tt texts i])"
  | (bad) r where "i < length texts" "f (batch_request k tt texts i) = Response r" "\<not> ok r"
      "embed_loop f k tt texts i acc = (Inl (embedding_error r), [batch_request k tt texts i])"
  | (good) r where "i < length texts" "f (batch_request k tt texts i) = Response r" "ok r"
      "embed_loop f k tt texts i acc =
     (fst (embed_loop f k tt texts (i + EMBEDDING_BATCH_SIZE) (acc @ body_embeddings r)),
      batch_request k tt texts i
        # snd (embed_loop f k tt texts (i + EMBEDDING_BATCH_SIZE) (acc @ body_embeddings r)))"
proof (cases "i < length texts")
  case False
  then show ?thesis using embed_loop_done fin by blast
next
  case True
  show ?thesis
  proof (cases "f (batch_request k tt texts i)")
    case (Rejected e)
    then show ?thesis using True embed_loop_rejected rej by blast
  next
    case (Response r)
    then show ?thesis using True embed_loop_not_ok embed_loop_ok bad good by (cases "ok r") blast+
  qed
qed

text \<open>The request number \<open>j\<close> carries the batch number \<open>j\<close>.\<close>

lemma embed_loop_sent:
  "j < length (snd (embed_loop f k tt texts i acc)) \<Longrightarrow>
   snd (embed_loop f k tt texts i acc) ! j = batch_request k tt texts (i + EMBEDDING_BATCH_SIZE * j)
   \<and> i + EMBEDDING_BATCH_SIZE * j < length texts"
proof (induction j arbitrary: i acc)
  case 0
  then show ?case by (cases rule: embed_loop_cases [of i texts f k tt acc]) simp_all
next
  case (Suc j)
  show ?case
  proof (cases rule: embed_loop_cases [of i texts f k tt acc])
    case (good r)
    with Suc.prems Suc.IH [of "i + EMBEDDING_BATCH_SIZE" "acc @ body_embeddings r"]
    show ?thesis by (simp add: add.assoc)
  qed (use Suc.prems in simp_all)
qed

text \<open>An answer that is not a success ends the run with its error.\<close>

lemma embed_loop_failure:
  "j < length (snd (embed_loop f k tt texts i acc)) \<Longrightarrow>
   f (snd (embed_loop f k tt texts i acc) ! j) = Response r \<Longrightarrow> \<not> ok r \<Longrightarrow>
   fst (embed_loop f k tt texts i acc) = Inl (embedding_error r)
   \<and> Suc j = length (snd (embed_loop f k tt texts i acc))"
proof (induction "length texts - i" arbitrary: i acc j rule: less_induct)
  case less
  show ?case
  proof (cases rule: embed_loop_cases [of i texts f k tt acc])
    case (good r')
    show ?thesis
    proof (cases j)
      case 0
      with less.prems good show ?thesis by simp
    next
      case (Suc j')
      have "length texts - (i + EMBEDDING_BATCH_SIZE) < length texts - i"
        using good(1) by (simp add: EMBEDDING_BATCH_SIZE_def)
      from less.hyps [OF this, of j' "acc @ body_embeddings r'"] less.prems good Suc
      show ?thesis by simp
    qed
  qed (use less.prems in auto)
qed

lemma embed_loop_success:
  assumes "\<And>req. \<exists>r. f req = Response r \<and> ok r \<and> body_embeddings r = map g (req_texts req)"
  shows "fst (embed_loop f k tt texts i acc) = Inr (acc @ map g (drop i texts))"
proof (induction "length texts - i" arbitrary: i acc rule: less_induct)
  case less
  show ?case
  proof (cases rule: embed_loop_cases [of i texts f k tt acc])
    case (good r)
    have "length texts - (i + EMBEDDING_BATCH_SIZE) < length texts - i"
      using good(1) by (simp add: EMBEDDING_BATCH_SIZE_def)
    from less.hyps [OF this, of "acc @ body_embeddings r"]
    have "fst (embed_loop f k tt texts i acc)
            = Inr (acc @ body_embeddings r @ map g (drop (i + EMBEDDING_BATCH_SIZE) texts))"
      using good by simp
    moreover have "body_embeddings r = map g (take EMBEDDING_BATCH_SIZE (drop i texts))"
      using assms [of "batch_request k tt texts i"] good(2) by (simp add: batch_request_def)
    moreover have "drop i texts = take EMBEDDING_BATCH_SIZE (drop i texts) @ drop (i + EMBEDDING_BATCH_SIZE) texts"
      by (metis append_take_drop_id drop_drop add.commute)
    ultimately show ?thesis by (metis map_append)
  next
    case (rej e)
    with assms [of "batch_request k tt texts i"] show ?thesis by simp
  next
    case (bad r)
    with assms [of "batch_request k tt texts i"] show ?thesis by simp
  qed simp
qed

lemma embed_loop_success_all_sent:
  "fst (embed_loop f k tt texts i acc) = Inr vs \<Longrightarrow>
   length texts \<le> i + EMBEDDING_BATCH_SIZE * length (snd (embed_loop f k tt texts i acc))"
proof (induction "length texts - i" arbitrary: i acc rule: less_induct)
  case less
  show ?case
  proof (cases rule: embed_loop_cases [of i texts f k tt acc])
    case (good r)
    have "length texts - (i + EMBEDDING_BATCH_SIZE) < length texts - i"
      using good(1) by (simp add: EMBEDDING_BATCH_SIZE_def)
    from less.hyps [OF this, of "acc @ body_embeddings r"] less.prems good
    show ?thesis by simp
  qed (use less.prems in auto)
qed

lemma generateEmbeddings_key:
  "key_set env \<Longrightarrow>
   generateEmbeddings env texts tt
     = embed_loop (fetch env) (the (GEMINI_API_KEY env)) tt texts 0 []"
  by (auto simp: key_set_def generateEmbeddings_def getGeminiApiKey_def)

lemma generateEmbeddings_no_key:
  "\<not> key_set env \<Longrightarrow>
   generateEmbeddings env texts tt
     = (Inl (Error (js ''GEMINI_API_KEY environment variable is not set.'')), [])"
  by (auto simp: key_set_def generateEmbeddings_def getGeminiApiKey_def split: option.splits)

text \<open>
  Claim C9. The request number \<open>j\<close> of a call carries the texts \<open>20 j\<close> up to \<open>20 j + 20\<close> of
  the input, in input order, and is sent only while texts remain; a call that returns has
  sent every batch. When the key is configured and the service answers each request with
  one vector per text, in order, the call returns the vectors of the input texts, in input
  order. A response that is not a success makes the call throw an error with the HTTP status
  and the response body, and the request it answers is the last one sent.
\<close>

theorem generateEmbeddings_batches:
  "(\<forall>j < length (snd (generateEmbeddings env texts tt)).
       req_texts (snd (generateEmbeddings env texts tt) ! j) = take 20 (drop (20 * j) texts)
     \<and> 20 * j < length texts)
   \<and> (\<forall>vs. fst (generateEmbeddings env texts tt) = Inr vs
          \<longrightarrow> length texts \<le> 20 * length (snd (generateEmbeddings env texts tt)))
   \<and> (key_set env
        \<and> (\<forall>req. \<exists>r. fetch env req = Response r \<and> ok r
                     \<and> body_embeddings r = map g (req_texts req))
          \<longrightarrow> fst (generateEmbeddings env texts tt) = Inr (map g texts))
   \<and> (\<forall>j r. j < length (snd (generateEmbeddings env texts tt))
          \<and> fetch env (snd (generateEmbeddings env texts tt) ! j) = Response r \<and> \<not> ok r
          \<longrightarrow> fst (generateEmbeddings env texts tt)
                = Inl (Error (js ''Gemini embedding API error ('' @ show_nat (status r)
                              @ js ''): '' @ body_text r))
              \<and> Suc j = length (snd (generateEmbeddings env texts tt)))"
proof (cases "key_set env")
  case False
  then show ?thesis by (simp add: generateEmbeddings_no_key)
next
  case True
  note g = generateEmbeddings_key [OF True]
  have a: "\<forall>j < length (snd (generateEmbeddings env texts tt)).
            req_texts (snd (generateEmbeddings env texts tt) ! j) = take 20 (drop (20 * j) texts)
          \<and> 20 * j < length texts"
    unfolding g
    using embed_loop_sent [of _ "fetch env" "the (GEMINI_API_KEY env)" tt texts 0 "[]"]
    by (simp add: batch_request_def EMBEDDING_BATCH_SIZE_def)
  have b: "\<forall>vs. fst (generateEmbeddings env texts tt) = Inr vs
            \<longrightarrow> length texts \<le> 20 * length (snd (generateEmbeddings env texts tt))"
    unfolding g
    using embed_loop_success_all_sent [of "fetch env" "the (GEMINI_API_KEY env)" tt texts 0 "[]"]
    by (simp add: EMBEDDING_BATCH_SIZE_def)
  have c: "(\<forall>req. \<exists>r. fetch env req = Response r \<and> ok r
                     \<and> body_embeddings r = map g (req_texts req))
            \<longrightarrow> fst (generateEmbeddings env texts tt) = Inr (map g texts)"
    unfolding g
    using embed_loop_success [of "fetch env" g "the (GEMINI_API_KEY env)" tt texts 0 "[]"]
    by simp
  have d: "\<forall>j r. j < length (snd (generateEmbeddings env texts tt))
            \<and> fetch env (snd (generateEmbeddings env texts tt) ! j) = Response r \<and> \<not> ok r
            \<longrightarrow> fst (generateEmbeddings env texts tt)
                  = Inl (Error (js ''Gemini embedding API error ('' @ show_nat (status r)
                                @ js ''): '' @ body_text r))
                \<and> Suc j = length (snd (generateEmbeddings env texts tt))"
    unfolding g
    using embed_loop_failure [of _ "fetch env" "the (GEMINI_API_KEY env)" tt texts 0 "[]"]
    by (auto simp: embedding_error_def)
  from a b c d show ?thesis by blast
qed

text \<open>
  Twenty-three texts go out as a batch of twenty and a batch of three. A service that
  refuses with status 429 ends the call at the first batch.
\<close>

lemma ex_embed_good:
  "generateEmbeddings (ex_embed_env True) ex_texts RETRIEVAL_DOCUMENT =
     (Inr (replicate 20 2 @ replicate 3 3),
      [\<lparr>req_key = js ''key'', req_texts = replicate 20 (js ''ab''),
        req_taskType = RETRIEVAL_DOCUMENT, req_outputDimensionality = 768\<rparr>,
       \<lparr>req_key = js ''key'', req_texts = replicate 3 (js ''cde''),
        req_taskType = RETRIEVAL_DOCUMENT, req_outputDimensionality = 768\<rparr>])"
  by (simp add: generateEmbeddings_def getGeminiApiKey_def ex_embed_env_def ex_texts_def
      embed_loop.simps ex_response_def Let_def
      batch_request_def EMBEDDING_BATCH_SIZE_def EMBEDDING_DIMS_def js_def)

lemma ex_embed_bad:
  "generateEmbeddings (ex_embed_env False) ex_texts RETRIEVAL_DOCUMENT =
     (Inl (Error (js ''Gemini embedding API error (429): quota'')),
      [\<lparr>req_key = js ''key'', req_texts = replicate 20 (js ''ab''),
        req_taskType = RETRIEVAL_DOCUMENT, req_outputDimensionality = 768\<rparr>])"
  by (simp add: generateEmbeddings_def getGeminiApiKey_def ex_embed_env_def ex_texts_def
      embed_loop.simps Let_def ex_response_def embedding_error_def
      batch_request_def EMBEDDING_BATCH_SIZE_def EMBEDDING_DIMS_def js_def show_nat.simps)

theorem generateEmbeddings_batches_witness:
  "key_set (ex_embed_env True)
   \<and> (\<forall>req. \<exists>r. fetch (ex_embed_env True) req = Response r \<and> ok r
                \<and> body_embeddings r = map length (req_texts req))
   \<and> fst (generateEmbeddings (ex_embed_env True) ex_texts RETRIEVAL_DOCUMENT)
       = Inr (map length ex_texts)
   \<and> 0 < length (snd (generateEmbeddings (ex_embed_env False) ex_texts RETRIEVAL_DOCUMENT))
   \<and> \<not> ok (ex_response False
              (snd (generateEmbeddings (ex_embed_env False) ex_texts RETRIEVAL_DOCUMENT) ! 0))
   \<and> fst (generateEmbeddings (ex_embed_env False) ex_texts RETRIEVAL_DOCUMENT)
       = Inl (Error (js ''Gemini embedding API error (429): quota''))
   \<and> length (snd (generateEmbeddings (ex_embed_env False) ex_texts RETRIEVAL_DOCUMENT)) = 1"
proof -
  have k: "key_set (ex_embed_env True)"
    by (simp add: key_set_def ex_embed_env_def js_def)
  have s: "\<forall>req. \<exists>r. fetch (ex_embed_env True) req = Response r \<and> ok r
                \<and> body_embeddings r = map length (req_texts req)"
    by (simp add: ex_embed_env_def ex_response_def)
  have n: "0 < length (snd (generateEmbeddings (ex_embed_env False) ex_texts RETRIEVAL_DOCUMENT))"
    by (simp add: ex_embed_bad)
  have f: "fetch (ex_embed_env False)
             (snd (generateEmbeddings (ex_embed_env False) ex_texts RETRIEVAL_DOCUMENT) ! 0)
           = Response (ex_response False
               (snd (generateEmbeddings (ex_embed_env False) ex_texts RETRIEVAL_DOCUMENT) ! 0))"
    by (simp add: ex_embed_env_def)
  have b: "\<not> ok (ex_response False
              (snd (generateEmbeddings (ex_embed_env False) ex_texts RETRIEVAL_DOCUMENT) ! 0))"
    by (simp add: ex_response_def)
  from generateEmbeddings_batches [of "ex_embed_env True" ex_texts RETRIEVAL_DOCUMENT length] k s
  have good: "fst (generateEmbeddings (ex_embed_env True) ex_texts RETRIEVAL_DOCUMENT)
       = Inr (map length ex_texts)"
    by blast
  from generateEmbeddings_batches [of "ex_embed_env False" ex_texts RETRIEVAL_DOCUMENT length]
    n f b
  have "fst (generateEmbeddings (ex_embed_env False) ex_texts RETRIEVAL_DOCUMENT)
          = Inl (Error (js ''Gemini embedding API error (''
                        @ show_nat (status (ex_response False
                            (snd (generateEmbeddings (ex_embed_env False) ex_texts
                                   RETRIEVAL_DOCUMENT) ! 0)))
                        @ js ''): ''
                        @ body_text (ex_response False
                            (snd (generateEmbeddings (ex_embed_env False) ex_texts
                                   RETRIEVAL_DOCUMENT) ! 0))))
         \<and> Suc 0 = length (snd (generateEmbeddings (ex_embed_env False) ex_texts
                                   RETRIEVAL_DOCUMENT))"
    by blast
  then have bad: "fst (generateEmbeddings (ex_embed_env False) ex_texts RETRIEVAL_DOCUMENT)
       = Inl (Error (js ''Gemini embedding API error (429): quota''))"
     "length (snd (generateEmbeddings (ex_embed_env False) ex_texts RETRIEVAL_DOCUMENT)) = 1"
    by (simp_all add: ex_response_def js_def show_nat.simps)
  from k s n b good bad show ?thesis by blast
qed

subsection \<open>A document without extractable pages\<close>

text \<open>
  Claim C4. When the document record is found, the file is downloaded and the extraction
  yields no page, the run ends with \<open>success: false\<close> and an error message, the only write
  it sends is the status update to \<open>failed\<close>, and no chunk row is inserted.
\<close>

theorem processDocument_no_pages:
  assumes "select_document env documentId = \<lparr>q_data = Some doc, q_error = None\<rparr>"
    and "storage_download env (file_url doc) = \<lparr>q_data = Some bytes, q_error = None\<rparr>"
    and "pdf_getText env bytes = Inr ([], n)"
  shows "fst (processDocument env documentId)
           = Failure (js ''Could not extract any text from the PDF.'')
       \<and> snd (processDocument env documentId) = [UpdateDocumentStatus documentId failed None]
       \<and> (\<forall>rows. InsertChunks rows \<notin> set (snd (processDocument env documentId)))"
  using assms by (simp add: processDocument_def extractTextFromPdf_def Let_def)

theorem processDocument_no_pages_witness:
  "select_document ex_rag_env ex_doc
     = \<lparr>q_data = Some \<lparr>file_name = js ''scan.pdf'', file_url = js ''u1/scan.pdf''\<rparr>,
        q_error = None\<rparr>
   \<and> storage_download ex_rag_env (js ''u1/scan.pdf'')
       = \<lparr>q_data = Some [0x25, 0x50, 0x44, 0x46], q_error = None\<rparr>
   \<and> pdf_getText ex_rag_env [0x25, 0x50, 0x44, 0x46] = Inr ([], 0)
   \<and> fst (processDocument ex_rag_env ex_doc)
       = Failure (js ''Could not extract any text from the PDF.'')
   \<and> snd (processDocument ex_rag_env ex_doc) = [UpdateDocumentStatus ex_doc failed None]
   \<and> (\<forall>rows. InsertChunks rows \<notin> set (snd (processDocument ex_rag_env ex_doc)))"
proof -
  have a: "select_document ex_rag_env ex_doc
     = \<lparr>q_data = Some \<lparr>file_name = js ''scan.pdf'', file_url = js ''u1/scan.pdf''\<rparr>,
        q_error = None\<rparr>"
    by (simp add: ex_rag_env_def)
  have b: "storage_download ex_rag_env
             (file_url \<lparr>file_name = js ''scan.pdf'', file_url = js ''u1/scan.pdf''\<rparr>)
       = \<lparr>q_data = Some [0x25, 0x50, 0x44, 0x46], q_error = None\<rparr>"
    by (simp add: ex_rag_env_def)
  have c: "pdf_getText ex_rag_env [0x25, 0x50, 0x44, 0x46] = Inr ([], 0)"
    by (simp add: ex_rag_env_def)
  from processDocument_no_pages [OF a b c] a b c show ?thesis by simp
qed

section \<open>Properties of insight extraction and merging\<close>

subsection \<open>The extraction plan\<close>

lemma groups_div: "nat \<lceil>(of_nat n :: rat) / of_nat CHUNKS_PER_GROUP\<rceil> = (n + 9) div 10"
proof -
  have "\<lceil>(of_nat n :: rat) / of_nat CHUNKS_PER_GROUP\<rceil>
          = \<lceil>(of_int (int n) :: rat) / of_int 10\<rceil>"
    by (simp add: CHUNKS_PER_GROUP_def)
  also have "\<dots> = - ((- int n) div 10)"
    unfolding ceiling_divide_eq_div by simp
  finally show ?thesis by linarith
qed

lemma ceiling_tenth: "\<lceil>real n / 10\<rceil> = int ((n + 9) div 10)"
proof -
  have "\<lceil>real n / 10\<rceil> = \<lceil>(of_int (int n) :: real) / of_int 10\<rceil>"
    by simp
  also have "\<dots> = - ((- int n) div 10)"
    unfolding ceiling_divide_eq_div by simp
  finally show ?thesis by linarith
qed

text \<open>
  Claim C5. When the counting query reports an error, or a count of zero, there is no plan.
  Otherwise the plan holds the count \<open>n\<close> and the ceiling of \<open>n / 10\<close> groups; 25 chunks give
  3 groups.
\<close>

theorem getInsightPlan_groups:
  "(q_count_error (count_chunks env d) \<noteq> None \<longrightarrow> getInsightPlan env d = None)
   \<and> (q_count (count_chunks env d) = Some 0 \<longrightarrow> getInsightPlan env d = None)
   \<and> (q_count_error (count_chunks env d) = None \<and> q_count (count_chunks env d) = Some n
        \<and> 0 < n
      \<longrightarrow> getInsightPlan env d = Some \<lparr>totalChunks = n, totalGroups = nat \<lceil>real n / 10\<rceil>\<rparr>)
   \<and> (q_count_error (count_chunks env d) = None \<and> q_count (count_chunks env d) = Some 25
      \<longrightarrow> map_option totalGroups (getInsightPlan env d) = Some 3)"
proof -
  have "nat \<lceil>real n / 10\<rceil> = (n + 9) div 10"
    by (simp add: ceiling_tenth)
  moreover have "nat \<lceil>(25::rat) / of_nat CHUNKS_PER_GROUP\<rceil> = 3"
    using groups_div [of 25] by simp
  ultimately show ?thesis
    by (simp add: getInsightPlan_def groups_div Let_def)
qed

theorem getInsightPlan_groups_witness:
  "getInsightPlan (ex_env_count (Some 25) None) ex_doc
     = Some \<lparr>totalChunks = 25, totalGroups = 3\<rparr>
   \<and> getInsightPlan (ex_env_count (Some 0) None) ex_doc = None
   \<and> getInsightPlan (ex_env_count None (Some (js ''timeout''))) ex_doc = None"
proof -
  have c: "count_chunks (ex_env_count c e) ex_doc = \<lparr>q_count = c, q_count_error = e\<rparr>" for c e
    by (simp add: ex_env_count_def ex_env_def)
  have "nat \<lceil>real (25::nat) / 10\<rceil> = 3"
    by (simp add: ceiling_tenth)
  with getInsightPlan_groups [of "ex_env_count (Some 25) None" ex_doc 25]
    getInsightPlan_groups [of "ex_env_count (Some 0) None" ex_doc 0]
    getInsightPlan_groups [of "ex_env_count None (Some (js ''timeout''))" ex_doc 0]
  show ?thesis by (simp add: c)
qed

subsection \<open>Merging a small set\<close>

lemma nth_reassign_ids:
  "i < length xs \<Longrightarrow> reassign_ids d xs ! i = (xs ! i)\<lparr>insight_id := final_id d i\<rparr>"
  by (simp add: reassign_ids_def nth_enumerate_eq)

lemma length_reassign_ids: "length (reassign_ids d xs) = length xs"
  by (simp add: reassign_ids_def)

text \<open>
  Claim C1. For a list of at most six candidates the merger calls no generative model: its
  only effect is one write of the result to the cache row of the document. The result has
  the length of the input, and its element \<open>i\<close> is the input element \<open>i\<close> with the id replaced
  by \<open>insight-\<close>, the first eight code units of the document id, \<open>-\<close> and \<open>i\<close>.
\<close>

theorem mergeAndCacheInsights_small_set:
  assumes "length allInsights \<le> 6"
  shows "\<exists>final.
           mergeAndCacheInsights env documentId allInsights
             = (Inr final, [Upsert documentId final])
         \<and> length final = length allInsights
         \<and> (\<forall>i < length allInsights.
              final ! i = (allInsights ! i)
                \<lparr>insight_id := js ''insight-'' @ take 8 documentId @ js ''-'' @ show_nat i\<rparr>)
         \<and> (\<forall>req. GenerateContent req
                \<notin> set (snd (mergeAndCacheInsights env documentId allInsights)))"
  using assms
  by (intro exI [of _ "reassign_ids documentId allInsights"])
     (simp add: mergeAndCacheInsights_def cacheInsights_def length_reassign_ids
        nth_reassign_ids final_id_def Let_def)

theorem mergeAndCacheInsights_small_set_witness:
  "length [ex_insight 0, ex_insight 1] \<le> 6
   \<and> mergeAndCacheInsights ex_env_no_key ex_doc [ex_insight 0, ex_insight 1]
       = (Inr [(ex_insight 0)\<lparr>insight_id := js ''insight-0f8fad5b-0''\<rparr>,
               (ex_insight 1)\<lparr>insight_id := js ''insight-0f8fad5b-1''\<rparr>],
          [Upsert ex_doc [(ex_insight 0)\<lparr>insight_id := js ''insight-0f8fad5b-0''\<rparr>,
                          (ex_insight 1)\<lparr>insight_id := js ''insight-0f8fad5b-1''\<rparr>]])"
proof -
  have h: "length [ex_insight 0, ex_insight 1] \<le> 6" by simp
  from mergeAndCacheInsights_small_set [OF h, of ex_env_no_key ex_doc] obtain final where
    m: "mergeAndCacheInsights ex_env_no_key ex_doc [ex_insight 0, ex_insight 1]
          = (Inr final, [Upsert ex_doc final])"
    and l: "length final = length [ex_insight 0, ex_insight 1]"
    and e: "\<forall>i < length [ex_insight 0, ex_insight 1].
              final ! i = ([ex_insight 0, ex_insight 1] ! i)
                \<lparr>insight_id := js ''insight-'' @ take 8 ex_doc @ js ''-'' @ show_nat i\<rparr>"
    by blast
  from l obtain a b where f: "final = [a, b]"
    by (cases final; cases "tl final") auto
  from e have "final ! 0 = (ex_insight 0)\<lparr>insight_id := js ''insight-0f8fad5b-0''\<rparr>"
    "final ! 1 = (ex_insight 1)\<lparr>insight_id := js ''insight-0f8fad5b-1''\<rparr>"
    by (simp_all add: ex_doc_def js_def show_nat.simps)
  with f m h show ?thesis by simp
qed

subsection \<open>A group without chunks\<close>

lemma getGeminiClient_key: "key_set env \<Longrightarrow> getGeminiClient env = Inr ()"
  by (auto simp: key_set_def getGeminiClient_def)

lemma ex_env_key: "key_set (ex_env answer)"
  by (simp add: key_set_def ex_env_def js_def)

text \<open>
  Claim C10, as stated, fails where the key of the generative model is not configured: the
  client is built before the chunks are fetched, and building it throws. Here the requested
  group lies beyond the last group of the document and the call throws.
\<close>

theorem extractGroupInsights_no_chunks_counterexample:
  "q_data (select_chunks ex_env_no_key ex_doc (5 * CHUNKS_PER_GROUP)
             (5 * CHUNKS_PER_GROUP + CHUNKS_PER_GROUP - 1)) = Some []
   \<and> extractGroupInsights ex_env_no_key ex_doc 5 2
       = (Inl (IError (js ''GEMINI_API_KEY environment variable is not set.'')), [])"
  by (simp add: extractGroupInsights_def getGeminiClient_def ex_env_no_key_def ex_env_def
      ex_rows_def CHUNKS_PER_GROUP_def)

text \<open>
  Claim C10, amended. When the key of the generative model is configured and the chunk
  fetch reports an error, or returns nothing, or returns no rows, the call returns the empty
  list and sends no model call.
\<close>

theorem extractGroupInsights_no_chunks:
  assumes "key_set env"
    and "q_error (select_chunks env documentId (groupIndex * CHUNKS_PER_GROUP)
                    (groupIndex * CHUNKS_PER_GROUP + CHUNKS_PER_GROUP - 1)) \<noteq> None
       \<or> q_data (select_chunks env documentId (groupIndex * CHUNKS_PER_GROUP)
                    (groupIndex * CHUNKS_PER_GROUP + CHUNKS_PER_GROUP - 1)) = None
       \<or> q_data (select_chunks env documentId (groupIndex * CHUNKS_PER_GROUP)
                    (groupIndex * CHUNKS_PER_GROUP + CHUNKS_PER_GROUP - 1)) = Some []"
  shows "extractGroupInsights env documentId groupIndex n = (Inr [], [])"
  using assms(2)
  by (auto simp: extractGroupInsights_def getGeminiClient_key [OF assms(1)])

theorem extractGroupInsights_no_chunks_witness:
  "key_set (ex_env (js ''[]''))
   \<and> q_data (select_chunks (ex_env (js ''[]'')) ex_doc (5 * CHUNKS_PER_GROUP)
               (5 * CHUNKS_PER_GROUP + CHUNKS_PER_GROUP - 1)) = Some []
   \<and> extractGroupInsights (ex_env (js ''[]'')) ex_doc 5 2 = (Inr [], [])"
proof -
  have h: "q_data (select_chunks (ex_env (js ''[]'')) ex_doc (5 * CHUNKS_PER_GROUP)
               (5 * CHUNKS_PER_GROUP + CHUNKS_PER_GROUP - 1)) = Some []"
    by (simp add: ex_env_def ex_rows_def CHUNKS_PER_GROUP_def)
  from extractGroupInsights_no_chunks [OF ex_env_key, of "js ''[]''" ex_doc 5 2] h ex_env_key
  show ?thesis by blast
qed

subsection \<open>Answers of the model that are not JSON\<close>

lemma trim_not_json: "trim (js ''not json'') = js ''not json''"
  by (simp add: trim_def js_def isWhiteSpace_def)

lemma ex_parse_not_json: "JSON_parse (ex_env answer) (js ''not json'') = None"
  by (simp add: ex_env_def ex_parse_def js_def)

lemma ex_first_group:
  "select_chunks (ex_env answer) ex_doc (0 * CHUNKS_PER_GROUP)
     (0 * CHUNKS_PER_GROUP + CHUNKS_PER_GROUP - 1)
     = \<lparr>q_data = Some (take 10 ex_rows), q_error = None\<rparr>"
  by (simp add: ex_env_def CHUNKS_PER_GROUP_def)

lemma ex_first_group_rows: "take 10 ex_rows \<noteq> []"
  by (simp add: ex_rows_def)

lemma ex_plan: "getInsightPlan (ex_env answer) ex_doc = Some \<lparr>totalChunks = 11, totalGroups = 2\<rparr>"
  using groups_div [of 11]
  by (simp add: getInsightPlan_def ex_env_def ex_rows_def Let_def)

lemma ex_no_cache: "getCachedInsights (ex_env answer) ex_doc = None"
  by (simp add: getCachedInsights_def ex_env_def Let_def)

lemma extract_malformed:
  assumes "key_set env"
    and "select_chunks env documentId (groupIndex * CHUNKS_PER_GROUP)
           (groupIndex * CHUNKS_PER_GROUP + CHUNKS_PER_GROUP - 1)
           = \<lparr>q_data = Some rows, q_error = None\<rparr>" "rows \<noteq> []"
    and "generateContent env (ExtractRequest groupIndex n rows) = Inr answer"
    and "trim answer \<noteq> []" "JSON_parse env (trim answer) = None"
  shows "extractGroupInsights env documentId groupIndex n
           = (Inl SyntaxError, [GenerateContent (ExtractRequest groupIndex n rows)])"
  using assms(2-)
  by (simp add: extractGroupInsights_def getGeminiClient_key [OF assms(1)] Let_def)

lemma extract_empty_array:
  assumes "key_set env"
    and "select_chunks env documentId (groupIndex * CHUNKS_PER_GROUP)
           (groupIndex * CHUNKS_PER_GROUP + CHUNKS_PER_GROUP - 1)
           = \<lparr>q_data = Some rows, q_error = None\<rparr>" "rows \<noteq> []"
    and "generateContent env (ExtractRequest groupIndex n rows) = Inr answer"
    and "trim answer \<noteq> []" "JSON_parse env (trim answer) = Some (JArray [])"
  shows "extractGroupInsights env documentId groupIndex n
           = (Inr [], [GenerateContent (ExtractRequest groupIndex n rows)])"
  using assms(2-)
  by (simp add: extractGroupInsights_def getGeminiClient_key [OF assms(1)] Let_def)

lemma trim_array: "trim (js ''[]'') = js ''[]''"
  by (simp add: trim_def js_def isWhiteSpace_def)

lemma ex_parse_array: "JSON_parse (ex_env answer) (js ''[]'') = Some (JArray [])"
  by (simp add: ex_env_def ex_parse_def)

lemma ex_second_group:
  "select_chunks (ex_env answer) ex_doc (1 * CHUNKS_PER_GROUP)
     (1 * CHUNKS_PER_GROUP + CHUNKS_PER_GROUP - 1)
     = \<lparr>q_data = Some (drop 10 ex_rows), q_error = None\<rparr>"
  by (simp add: ex_env_def CHUNKS_PER_GROUP_def ex_rows_def)

lemma ex_second_group_rows: "drop 10 ex_rows \<noteq> []"
  by (simp add: ex_rows_def)

lemma all_settled_Inl:
  "Inl e \<in> set rs \<Longrightarrow> \<exists>e'. all_settled rs = Inl e'"
  by (induction rs) (auto split: sum.splits)

lemma extract_events:
  "ev \<in> set (snd (extractGroupInsights env documentId i n))
     \<Longrightarrow> \<exists>rows. ev = GenerateContent (ExtractRequest i n rows)"
  by (auto simp: extractGroupInsights_def Let_def split: sum.splits if_splits option.splits)

lemma generateInsights_fails:
  assumes "getCachedInsights env documentId = None"
    and "getInsightPlan env documentId = Some plan"
    and "g < totalGroups plan"
    and "fst (extractGroupInsights env documentId g (totalGroups plan)) = Inl e"
  shows "(\<exists>e'. fst (generateInsights env documentId) = Inl e')
       \<and> (\<forall>d xs. Upsert d xs \<notin> set (snd (generateInsights env documentId)))
       \<and> (\<forall>xs. GenerateContent (MergeRequest xs) \<notin> set (snd (generateInsights env documentId)))"
proof -
  let ?calls = "map (\<lambda>i. extractGroupInsights env documentId i (totalGroups plan))
                  [0 ..< totalGroups plan]"
  have "Inl e \<in> set (map fst ?calls)"
    using assms(3,4) by (force simp: image_iff)
  then obtain e' where e': "all_settled (map fst ?calls) = Inl e'"
    using all_settled_Inl by blast
  then have g: "generateInsights env documentId = (Inl e', concat (map snd ?calls))"
    using assms(1,2) by (simp add: generateInsights_def Let_def comp_def)
  have "\<forall>d xs. Upsert d xs \<notin> set (snd (generateInsights env documentId))"
    unfolding g using extract_events by fastforce
  moreover have "\<forall>xs. GenerateContent (MergeRequest xs)
                   \<notin> set (snd (generateInsights env documentId))"
    unfolding g using extract_events by fastforce
  ultimately show ?thesis using g by simp
qed

text \<open>
  Claim C2, as stated, fails: the parser's exception is not caught. The model answers
  \<open>not json\<close> to the first of two groups and the empty array to the second; the first call
  throws instead of returning the empty list, and the whole flow is rejected although the
  second group is fine.
\<close>

theorem extractGroupInsights_malformed_counterexample:
  "trim (js ''not json'') \<noteq> []
   \<and> JSON_parse (ex_env (js ''not json'')) (trim (js ''not json'')) = None
   \<and> fst (extractGroupInsights (ex_env (js ''not json'')) ex_doc 0 2) = Inl SyntaxError
   \<and> fst (extractGroupInsights (ex_env (js ''not json'')) ex_doc 1 2) = Inr []
   \<and> fst (generateInsights (ex_env (js ''not json'')) ex_doc) = Inl SyntaxError"
proof -
  have g: "generateContent (ex_env (js ''not json'')) (ExtractRequest 0 2 (take 10 ex_rows))
             = Inr (js ''not json'')"
    by (simp add: ex_env_def)
  have a: "extractGroupInsights (ex_env (js ''not json'')) ex_doc 0 2
             = (Inl SyntaxError, [GenerateContent (ExtractRequest 0 2 (take 10 ex_rows))])"
    by (rule extract_malformed [OF ex_env_key ex_first_group ex_first_group_rows g])
       (simp_all add: trim_not_json ex_parse_not_json, simp add: js_def)
  have "generateContent (ex_env (js ''not json'')) (ExtractRequest 1 2 (drop 10 ex_rows))
          = Inr (js ''[]'')"
    by (simp add: ex_env_def)
  from extract_empty_array [OF ex_env_key ex_second_group ex_second_group_rows this]
  have b: "fst (extractGroupInsights (ex_env (js ''not json'')) ex_doc 1 2) = Inr []"
    by (simp add: trim_array ex_parse_array) (simp add: js_def)
  have "fst (generateInsights (ex_env (js ''not json'')) ex_doc) = Inl SyntaxError"
    using a b by (simp add: generateInsights_def ex_no_cache ex_plan Let_def numeral_2_eq_2)
  with a b show ?thesis by (simp add: trim_not_json ex_parse_not_json) (simp add: js_def)
qed

text \<open>
  Claim C2, amended. When the answer of the model for a group is not empty after trimming
  and is not valid JSON, the call for that group throws the parser's SyntaxError after its
  single model call: it returns no list and does not retry. A run of the legacy flow that
  contains such a group (no cached insights, a plan with that many groups) is rejected as a
  whole, sends no merge call and writes nothing to the cache.
\<close>

theorem extractGroupInsights_malformed_throws:
  assumes "key_set env"
    and "select_chunks env documentId (groupIndex * CHUNKS_PER_GROUP)
           (groupIndex * CHUNKS_PER_GROUP + CHUNKS_PER_GROUP - 1)
           = \<lparr>q_data = Some rows, q_error = None\<rparr>" "rows \<noteq> []"
    and "generateContent env (ExtractRequest groupIndex n rows) = Inr answer"
    and "trim answer \<noteq> []" "JSON_parse env (trim answer) = None"
  shows "extractGroupInsights env documentId groupIndex n
           = (Inl SyntaxError, [GenerateContent (ExtractRequest groupIndex n rows)])
       \<and> (getCachedInsights env documentId = None
           \<and> getInsightPlan env documentId = Some plan
           \<and> totalGroups plan = n \<and> groupIndex < n
          \<longrightarrow> (\<exists>e. fst (generateInsights env documentId) = Inl e)
              \<and> (\<forall>d xs. Upsert d xs \<notin> set (snd (generateInsights env documentId)))
              \<and> (\<forall>xs. GenerateContent (MergeRequest xs)
                     \<notin> set (snd (generateInsights env documentId))))"
proof -
  note x = extract_malformed [OF assms]
  have "fst (extractGroupInsights env documentId groupIndex n) = Inl SyntaxError"
    using x by simp
  then show ?thesis
    using x generateInsights_fails [of env documentId plan groupIndex SyntaxError] by blast
qed

theorem extractGroupInsights_malformed_throws_witness:
  "key_set (ex_env (js ''not json''))
   \<and> trim (js ''not json'') \<noteq> []
   \<and> JSON_parse (ex_env (js ''not json'')) (trim (js ''not json'')) = None
   \<and> getCachedInsights (ex_env (js ''not json'')) ex_doc = None
   \<and> getInsightPlan (ex_env (js ''not json'')) ex_doc = Some \<lparr>totalChunks = 11, totalGroups = 2\<rparr>
   \<and> extractGroupInsights (ex_env (js ''not json'')) ex_doc 0 2
       = (Inl SyntaxError, [GenerateContent (ExtractRequest 0 2 (take 10 ex_rows))])
   \<and> (\<exists>e. fst (generateInsights (ex_env (js ''not json'')) ex_doc) = Inl e)
   \<and> (\<forall>d xs. Upsert d xs \<notin> set (snd (generateInsights (ex_env (js ''not json'')) ex_doc)))
   \<and> (\<forall>xs. GenerateContent (MergeRequest xs)
          \<notin> set (snd (generateInsights (ex_env (js ''not json'')) ex_doc)))"
proof -
  have g: "generateContent (ex_env (js ''not json'')) (ExtractRequest 0 2 (take 10 ex_rows))
             = Inr (js ''not json'')"
    by (simp add: ex_env_def)
  have t: "trim (js ''not json'') \<noteq> []"
    by (simp add: trim_not_json) (simp add: js_def)
  have p: "JSON_parse (ex_env (js ''not json'')) (trim (js ''not json'')) = None"
    by (simp add: trim_not_json ex_parse_not_json)
  from extractGroupInsights_malformed_throws
         [OF ex_env_key ex_first_group ex_first_group_rows g t p,
          of "\<lparr>totalChunks = 11, totalGroups = 2\<rparr>"]
    ex_env_key t p ex_no_cache [of "js ''not json''"] ex_plan [of "js ''not json''"]
  show ?thesis by simp
qed

subsection \<open>Answers to the merge request\<close>

lemma ex_candidates_length: "length ex_candidates = 7"
  by (simp add: ex_candidates_def)

text \<open>
  Claim C3, as stated, fails for an answer that does not parse: with seven candidates and
  the answer \<open>not json\<close> the merger throws the parser's exception after the model call, and no
  cache write is sent.
\<close>

theorem mergeAndCacheInsights_unparsable_counterexample:
  "6 < length ex_candidates
   \<and> trim (js ''not json'') \<noteq> []
   \<and> JSON_parse (ex_env (js ''not json'')) (trim (js ''not json'')) = None
   \<and> mergeAndCacheInsights (ex_env (js ''not json'')) ex_doc ex_candidates
       = (Inl SyntaxError,
          [GenerateContent (MergeRequest (map InsightBody.truncate ex_candidates))])"
proof -
  have "generateContent (ex_env (js ''not json''))
          (MergeRequest (map InsightBody.truncate ex_candidates)) = Inr (js ''not json'')"
    by (simp add: ex_env_def)
  moreover have "js ''not json'' \<noteq> []" by (simp add: js_def)
  ultimately show ?thesis
    by (simp add: mergeAndCacheInsights_def ex_candidates_length
        getGeminiClient_key [OF ex_env_key] trim_not_json ex_parse_not_json Let_def)
qed

text \<open>
  Claim C3, amended. With more than six candidates, a configured key and an answer of the
  merge model: when the answer is empty after trimming, the candidates with their ids
  re-assigned in sequence are written to the cache and returned; when the answer is not
  empty and does not parse as JSON, the call throws the parser's SyntaxError and sends no
  cache write.
\<close>

theorem mergeAndCacheInsights_degraded_answer:
  assumes "length allInsights > 6" "key_set env"
    and "generateContent env (MergeRequest (map InsightBody.truncate allInsights)) = Inr answer"
  shows "(trim answer = [] \<longrightarrow>
            (\<exists>final.
               mergeAndCacheInsights env documentId allInsights =
                 (Inr final,
                  [GenerateContent (MergeRequest (map InsightBody.truncate allInsights)),
                   Upsert documentId final])
             \<and> length final = length allInsights
             \<and> (\<forall>i < length allInsights.
                  final ! i = (allInsights ! i)
                    \<lparr>insight_id := js ''insight-'' @ take 8 documentId @ js ''-''
                                   @ show_nat i\<rparr>)))
       \<and> (trim answer \<noteq> [] \<and> JSON_parse env (trim answer) = None \<longrightarrow>
            mergeAndCacheInsights env documentId allInsights =
              (Inl SyntaxError,
               [GenerateContent (MergeRequest (map InsightBody.truncate allInsights))]))"
proof -
  have "trim answer = [] \<Longrightarrow>
          mergeAndCacheInsights env documentId allInsights =
            (Inr (reassign_ids documentId allInsights),
             [GenerateContent (MergeRequest (map InsightBody.truncate allInsights)),
              Upsert documentId (reassign_ids documentId allInsights)])"
    using assms
    by (simp add: mergeAndCacheInsights_def getGeminiClient_key cacheInsights_def Let_def)
  then have 1: "trim answer = [] \<longrightarrow>
            (\<exists>final.
               mergeAndCacheInsights env documentId allInsights =
                 (Inr final,
                  [GenerateContent (MergeRequest (map InsightBody.truncate allInsights)),
                   Upsert documentId final])
             \<and> length final = length allInsights
             \<and> (\<forall>i < length allInsights.
                  final ! i = (allInsights ! i)
                    \<lparr>insight_id := js ''insight-'' @ take 8 documentId @ js ''-''
                                   @ show_nat i\<rparr>))"
    by (intro impI exI [of _ "reassign_ids documentId allInsights"])
       (simp add: length_reassign_ids nth_reassign_ids final_id_def)
  have 2: "trim answer \<noteq> [] \<and> JSON_parse env (trim answer) = None \<longrightarrow>
            mergeAndCacheInsights env documentId allInsights =
              (Inl SyntaxError,
               [GenerateContent (MergeRequest (map InsightBody.truncate allInsights))])"
    using assms
    by (simp add: mergeAndCacheInsights_def getGeminiClient_key Let_def)
  from 1 2 show ?thesis by blast
qed

theorem mergeAndCacheInsights_degraded_answer_witness:
  "6 < length ex_candidates \<and> key_set (ex_env (js '' '')) \<and> key_set (ex_env (js ''not json''))
   \<and> trim (js '' '') = []
   \<and> (\<exists>final.
         mergeAndCacheInsights (ex_env (js '' '')) ex_doc ex_candidates =
           (Inr final,
            [GenerateContent (MergeRequest (map InsightBody.truncate ex_candidates)),
             Upsert ex_doc final])
       \<and> length final = 7
       \<and> final ! 6 = (ex_insight 6)\<lparr>insight_id := js ''insight-0f8fad5b-6''\<rparr>)
   \<and> trim (js ''not json'') \<noteq> []
   \<and> JSON_parse (ex_env (js ''not json'')) (trim (js ''not json'')) = None
   \<and> mergeAndCacheInsights (ex_env (js ''not json'')) ex_doc ex_candidates
       = (Inl SyntaxError,
          [GenerateContent (MergeRequest (map InsightBody.truncate ex_candidates))])"
proof -
  have h: "6 < length ex_candidates" by (simp add: ex_candidates_length)
  have g: "generateContent (ex_env answer)
          (MergeRequest (map InsightBody.truncate ex_candidates)) = Inr answer" for answer
    by (simp add: ex_env_def)
  have t: "trim (js '' '') = []"
    by (simp add: trim_def js_def isWhiteSpace_def)
  have o: "trim (js ''not json'') \<noteq> []"
    by (simp add: trim_not_json) (simp add: js_def)
  have p: "JSON_parse (ex_env (js ''not json'')) (trim (js ''not json'')) = None"
    by (simp add: trim_not_json ex_parse_not_json)
  have c6: "ex_candidates ! 6 = ex_insight 6"
    by (simp add: ex_candidates_def nth_map_upt)
  from mergeAndCacheInsights_degraded_answer [OF h ex_env_key g, of "js '' ''" ex_doc] t
  obtain final where f:
    "mergeAndCacheInsights (ex_env (js '' '')) ex_doc ex_candidates =
           (Inr final,
            [GenerateContent (MergeRequest (map InsightBody.truncate ex_candidates)),
             Upsert ex_doc final])"
    "length final = length ex_candidates"
    "\<forall>i < length ex_candidates.
        final ! i = (ex_candidates ! i)
          \<lparr>insight_id := js ''insight-'' @ take 8 ex_doc @ js ''-'' @ show_nat i\<rparr>"
    by blast
  from f(3) have "final ! 6 = (ex_insight 6)\<lparr>insight_id := js ''insight-0f8fad5b-6''\<rparr>"
    by (simp add: ex_candidates_length c6 ex_doc_def js_def show_nat.simps)
  with f(1,2) have 1: "\<exists>final.
         mergeAndCacheInsights (ex_env (js '' '')) ex_doc ex_candidates =
           (Inr final,
            [GenerateContent (MergeRequest (map InsightBody.truncate ex_candidates)),
             Upsert ex_doc final])
       \<and> length final = 7
       \<and> final ! 6 = (ex_insight 6)\<lparr>insight_id := js ''insight-0f8fad5b-6''\<rparr>"
    by (simp add: ex_candidates_length)
  from mergeAndCacheInsights_degraded_answer [OF h ex_env_key g, of "js ''not json''" ex_doc] o p
  have 2: "mergeAndCacheInsights (ex_env (js ''not json'')) ex_doc ex_candidates
       = (Inl SyntaxError,
          [GenerateContent (MergeRequest (map InsightBody.truncate ex_candidates))])"
    by blast
  from h t o p 1 2 ex_env_key [of "js '' ''"] ex_env_key [of "js ''not json''"]
  show ?thesis by blast
qed

end
